theory Spec2Isabelle
  imports Complex_Main
begin

section \<open>Data model (cartolafc/models.py)\<close>

text \<open>
  The classes of \<^verbatim>\<open>models.py\<close> that the partial-score computation reads or writes are
  records. Attributes called \<^verbatim>\<open>id\<close> in the source carry the name of the constructor
  parameter (\<^verbatim>\<open>atleta_id\<close>, \<^verbatim>\<open>clube_id\<close>), since \<open>id\<close> is the identity function of HOL.
  Attributes that several classes share (\<^verbatim>\<open>nome\<close>, \<^verbatim>\<open>pontos\<close>) are written qualified:
  \<open>Clube.nome\<close>, \<open>Posicao.nome\<close>, \<open>Atleta.pontos\<close>, \<open>Time.pontos\<close>.

  Scores are Python floats. They are modelled as real numbers: rounding is not modelled, the
  literals \<^verbatim>\<open>1.5\<close> and \<^verbatim>\<open>0.1\<close> are the exact fractions.
\<close>

record Posicao =
  posicao_id :: int
  nome :: string
  abreviacao :: string

record Clube =
  clube_id :: int
  nome :: string
  abreviacao :: string
  escudos :: string

text \<open>
  \<^verbatim>\<open>Atleta.from_dict\<close> sets \<^verbatim>\<open>clube\<close> to \<^verbatim>\<open>clubes.get(data['clube_id'])\<close>, or to the empty
  string when the club id is 1. The attribute therefore holds a \<^verbatim>\<open>Clube\<close>, the empty string
  (\<open>ClubeVazio\<close>), or \<^verbatim>\<open>None\<close> when the id is missing from the table (\<open>ClubeNone\<close>).
\<close>

datatype clube_ref = ClubeVazio | ClubeNone | ClubeObj Clube

text \<open>
  \<^verbatim>\<open>Atleta.__init__\<close> stores \<^verbatim>\<open>scout if scout else ''\<close>: a non-empty dictionary or the empty
  string. The scoring pass stores the empty dictionary \<^verbatim>\<open>{}\<close>, which is \<open>ScoutDict []\<close>.
\<close>

datatype scout_val = ScoutVazio | ScoutDict "(string \<times> int) list"

text \<open>
  \<^verbatim>\<open>nome\<close> is not set by \<^verbatim>\<open>Atleta.__init__\<close>: the scoring pass creates the attribute, so it is
  \<open>None\<close> on a freshly built athlete. \<^verbatim>\<open>entrou_em_campo\<close> and \<^verbatim>\<open>is_capitao\<close> may be \<^verbatim>\<open>None\<close>
  (\<^verbatim>\<open>from_dict\<close> passes \<^verbatim>\<open>None\<close> when the key is missing); the code only tests their truth value.
\<close>

record Atleta =
  atleta_id :: int
  apelido :: string
  nome :: "string option"
  pontos :: real
  scout :: scout_val
  posicao :: Posicao
  entrou_em_campo :: "bool option"
  clube :: clube_ref
  is_capitao :: "bool option"

record Partida =
  local :: string
  valida :: bool
  clube_casa :: Clube
  placar_casa :: "int option"
  clube_visitante :: Clube
  placar_visitante :: "int option"
  fim_de_jogo :: string
  status_transmissao_tr :: string

text \<open>
  \<^verbatim>\<open>Time.reservas\<close> is \<^verbatim>\<open>None\<close> when the payload has no reserves. \<^verbatim>\<open>jogados\<close> is created by the
  scoring pass, so it is \<open>None\<close> on a freshly built team. The attribute \<^verbatim>\<open>info\<close> is neither read
  nor written by the pass and is left out.
\<close>

record Time =
  patrimonio :: real
  valor_time :: real
  ultima_pontuacao :: real
  atletas :: "Atleta list"
  reservas :: "Atleta list option"
  pontos :: real
  rodada_atual :: int
  jogados :: "int option"

text \<open>Python truth value of an optional boolean: \<^verbatim>\<open>None\<close> and \<^verbatim>\<open>False\<close> are false.\<close>

definition truthy :: "bool option \<Rightarrow> bool" where
  "truthy b = (case b of Some True \<Rightarrow> True | _ \<Rightarrow> False)"

section \<open>The live feed and the arguments as Python values\<close>

text \<open>
  \<^verbatim>\<open>_calculate_parcial\<close> checks the classes of its arguments at run time, so the model keeps
  them dynamic. A key of the feed is an integer or something else (the keys read from the
  JSON file in \<^verbatim>\<open>time_parcial_2\<close> are strings); a value is an \<^verbatim>\<open>Atleta\<close> or something else;
  the first argument is a \<^verbatim>\<open>Time\<close> or something else. The dictionary is an association list
  read by \<open>map_of\<close>.
\<close>

datatype chave = ChaveInt int | ChaveStr string

datatype valor = ValorAtleta Atleta | ValorOutro

type_synonym parciais = "(chave \<times> valor) list"

datatype time_arg = ArgTime Time | ArgOutro

datatype error = CartolaFCError | AttributeError

text \<open>
  The outcome of a call: the function returns, or an exception leaves it. Both carry the
  state of the object passed as \<^verbatim>\<open>time\<close> at that moment, since the function mutates it in
  place and returns the same object.
\<close>

datatype resultado = Returns time_arg | Raises error time_arg

fun isinstance_int :: "chave \<Rightarrow> bool" where
  "isinstance_int (ChaveInt _) = True"
| "isinstance_int (ChaveStr _) = False"

text \<open>\<^verbatim>\<open>isinstance(x, Atleta)\<close> on the result of a lookup, returning the athlete when it holds.\<close>

fun isinstance_Atleta :: "valor option \<Rightarrow> Atleta option" where
  "isinstance_Atleta (Some (ValorAtleta p)) = Some p"
| "isinstance_Atleta (Some ValorOutro) = None"
| "isinstance_Atleta None = None"

fun isinstance_Time :: "time_arg \<Rightarrow> bool" where
  "isinstance_Time (ArgTime _) = True"
| "isinstance_Time ArgOutro = False"

text \<open>\<^verbatim>\<open>parciais.get(k)\<close> for an integer \<^verbatim>\<open>k\<close>.\<close>

definition get :: "parciais \<Rightarrow> int \<Rightarrow> valor option" where
  "get parciais k = map_of parciais (ChaveInt k)"

text \<open>
  \<^verbatim>\<open>any(not isinstance(key, int) or not isinstance(parciais[key], Atleta) for key in parciais.keys())\<close>
\<close>

definition parciais_invalidos :: "parciais \<Rightarrow> bool" where
  "parciais_invalidos parciais =
     list_ex (\<lambda>key. \<not> isinstance_int key \<or> isinstance_Atleta (map_of parciais key) = None)
       (map fst parciais)"

text \<open>\<^verbatim>\<open>_teste\<close> and \<^verbatim>\<open>_teste_2\<close>, the lookups submitted to the thread pool.\<close>

definition teste :: "parciais \<Rightarrow> int \<Rightarrow> valor option" where
  "teste parciais ident = get parciais ident"

definition teste_2 :: "parciais \<Rightarrow> int \<Rightarrow> valor option" where
  "teste_2 parciais_2 ident = get parciais_2 ident"

section \<open>Whether the club's match has finished\<close>

text \<open>
  The loop over \<^verbatim>\<open>partidas\<close> inside \<^verbatim>\<open>_calculate_parcial\<close>; the accumulator is the variable
  \<^verbatim>\<open>jogo_finalizou\<close>. The test \<^verbatim>\<open>atleta.clube != ''\<close> lets \<^verbatim>\<open>None\<close> through, and reading
  \<^verbatim>\<open>.nome\<close> of \<^verbatim>\<open>None\<close> raises \<^verbatim>\<open>AttributeError\<close>. The loop text is the same in
  \<^verbatim>\<open>_calculate_parcial_2\<close>.
\<close>

definition encerrada :: "Partida \<Rightarrow> bool" where
  "encerrada partida =
     ((fim_de_jogo partida = ''veja como foi'' \<or> status_transmissao_tr partida = ''ENCERRADA'')
      \<or> \<not> valida partida)"

fun partidas_loop :: "clube_ref \<Rightarrow> Partida list \<Rightarrow> bool \<Rightarrow> error + bool" where
  "partidas_loop c [] jf = Inr jf"
| "partidas_loop ClubeVazio (partida # ps) jf = partidas_loop ClubeVazio ps jf"
| "partidas_loop ClubeNone (partida # ps) jf = Inl AttributeError"
| "partidas_loop (ClubeObj cl) (partida # ps) jf =
     (if Clube.nome cl = Clube.nome (clube_casa partida)
         \<or> Clube.nome cl = Clube.nome (clube_visitante partida)
      then partidas_loop (ClubeObj cl) ps (encerrada partida)
      else partidas_loop (ClubeObj cl) ps jf)"

definition jogo_finalizou :: "clube_ref \<Rightarrow> Partida list \<Rightarrow> error + bool" where
  "jogo_finalizou c partidas = partidas_loop c partidas False"

section \<open>The scoring pass (cartolafc/api.py, \<^verbatim>\<open>_calculate_parcial\<close>)\<close>

text \<open>
  The variables that the loop over \<^verbatim>\<open>time.atletas\<close> reads and writes: the attributes
  \<^verbatim>\<open>time.pontos\<close>, \<^verbatim>\<open>time.jogados\<close> and \<^verbatim>\<open>time.reservas\<close>, and the local list
  \<^verbatim>\<open>reserva_usado\<close>. The field \<open>creditos\<close> is a ghost variable: every execution of
  \<^verbatim>\<open>time.pontos += reserva.pontos\<close> appends one entry to it, saying which of the two statements
  ran, for a starter of which position, and which reserve with how many points was added.
  Nothing reads it. The locals \<^verbatim>\<open>reserva_pontos\<close> and \<^verbatim>\<open>reserva_cap\<close> are never read and are
  left out.
\<close>

datatype ramo = RamoCapitao | RamoSubstituicao

record credito =
  cr_ramo :: ramo
  cr_posicao :: string
  cr_reserva :: int
  cr_pontos :: real

record laco =
  time_pontos :: real
  time_jogados :: int
  time_reservas :: "Atleta list option"
  reserva_usado :: "string list"
  creditos :: "credito list"

text \<open>The four assignments to the starter, with \<^verbatim>\<open>tem_parcial\<close> the \<open>Some\<close> case.\<close>

definition atualiza_atleta :: "Atleta \<Rightarrow> Atleta option \<Rightarrow> Atleta" where
  "atualiza_atleta atleta tem_parcial =
     (case tem_parcial of
        Some atleta_parcial \<Rightarrow>
          atleta\<lparr>Atleta.nome := Some (apelido atleta_parcial),
                 Atleta.pontos := Atleta.pontos atleta_parcial,
                 scout := scout atleta_parcial,
                 entrou_em_campo := entrou_em_campo atleta_parcial\<rparr>
      | None \<Rightarrow>
          atleta\<lparr>Atleta.nome := Some '''',
                 Atleta.pontos := 0,
                 scout := ScoutDict [],
                 entrou_em_campo := Some False\<rparr>)"

text \<open>The two assignments to a reserve.\<close>

definition atualiza_reserva :: "Atleta \<Rightarrow> Atleta option \<Rightarrow> Atleta" where
  "atualiza_reserva reserva res_tem_parcial =
     (case res_tem_parcial of
        Some reserva_parcial \<Rightarrow>
          reserva\<lparr>Atleta.pontos := Atleta.pontos reserva_parcial, scout := scout reserva_parcial\<rparr>
      | None \<Rightarrow> reserva\<lparr>Atleta.pontos := 0, scout := ScoutDict []\<rparr>)"

text \<open>\<^verbatim>\<open>time.pontos += reserva.pontos\<close>, with its ghost entry.\<close>

definition credita :: "ramo \<Rightarrow> Atleta \<Rightarrow> Atleta \<Rightarrow> laco \<Rightarrow> laco" where
  "credita r atleta reserva st =
     st\<lparr>time_pontos := time_pontos st + Atleta.pontos reserva,
        creditos := creditos st @
          [\<lparr>cr_ramo = r, cr_posicao = Posicao.nome (posicao atleta),
            cr_reserva = atleta_id reserva, cr_pontos = Atleta.pontos reserva\<rparr>]\<rparr>"

text \<open>
  The loop \<^verbatim>\<open>for reserva in time.reservas\<close> for one starter. Each of the three \<^verbatim>\<open>break\<close>s
  returns with the remaining reserves untouched. \<^verbatim>\<open>foundRes\<close> is assigned \<^verbatim>\<open>False\<close> just before
  it is read, so it is a local of the iteration.
\<close>

fun reservas_loop :: "parciais \<Rightarrow> Atleta \<Rightarrow> bool \<Rightarrow> Atleta list \<Rightarrow> laco \<Rightarrow> Atleta list \<times> laco" where
  "reservas_loop parciais atleta jf [] st = ([], st)"
| "reservas_loop parciais atleta jf (reserva # rs) st =
     (let reserva1 = atualiza_reserva reserva (isinstance_Atleta (get parciais (atleta_id reserva)))
      in if \<not> truthy (entrou_em_campo atleta) then
           (let foundRes = False
            in if Posicao.nome (posicao atleta) \<in> set (reserva_usado st) then (reserva1 # rs, st)
               else
                 (let st1 = (if truthy (is_capitao atleta)
                                \<and> Posicao.nome (posicao atleta) = Posicao.nome (posicao reserva1) \<and> jf
                             then credita RamoCapitao atleta reserva1 st else st)
                  in if Posicao.nome (posicao atleta) = Posicao.nome (posicao reserva1)
                        \<and> \<not> foundRes \<and> jf \<and> 0.1 \<le> Atleta.pontos reserva1
                     then (reserva1 # rs,
                           (credita RamoSubstituicao atleta reserva1 st1)
                             \<lparr>reserva_usado := reserva_usado st1 @ [Posicao.nome (posicao reserva1)]\<rparr>)
                     else (case reservas_loop parciais atleta jf rs st1 of
                             (rs1, st2) \<Rightarrow> (reserva1 # rs1, st2))))
         else (reserva1 # rs, st))"

text \<open>
  The body of the loop \<^verbatim>\<open>for atleta in time.atletas\<close>. The thread pool runs the single lookup
  \<^verbatim>\<open>teste(parciais, atleta.id)\<close> and hands its result back, so the body runs once per starter.
  \<^verbatim>\<open>if time.reservas:\<close> is false for \<^verbatim>\<open>None\<close> and for the empty list. When the match loop
  raises, the starter and \<^verbatim>\<open>time.jogados\<close> have already been written.
\<close>

definition atleta_step :: "parciais \<Rightarrow> Partida list \<Rightarrow> Atleta \<Rightarrow> laco \<Rightarrow> error option \<times> Atleta \<times> laco" where
  "atleta_step parciais partidas atleta st =
     (let atleta_parcial = teste parciais (atleta_id atleta);
          tem_parcial = isinstance_Atleta atleta_parcial;
          atleta1 = atualiza_atleta atleta tem_parcial;
          st1 = st\<lparr>time_jogados := time_jogados st + (if tem_parcial \<noteq> None then 1 else 0)\<rparr>
      in case jogo_finalizou (clube atleta1) partidas of
           Inl e \<Rightarrow> (Some e, atleta1, st1)
         | Inr jf \<Rightarrow>
             (let st2 = (case time_reservas st1 of
                           Some (r # rs) \<Rightarrow>
                             (case reservas_loop parciais atleta1 jf (r # rs) st1 of
                                (rs1, st') \<Rightarrow> st'\<lparr>time_reservas := Some rs1\<rparr>)
                         | _ \<Rightarrow> st1);
                  atleta2 = (if truthy (is_capitao atleta1)
                             then atleta1\<lparr>Atleta.pontos := Atleta.pontos atleta1 * 1.5\<rparr>
                             else atleta1)
              in (None, atleta2, st2\<lparr>time_pontos := time_pontos st2 + Atleta.pontos atleta2\<rparr>)))"

text \<open>
  The loop over the starters. It returns the starters as the loop leaves them; an exception
  stops it, with the starters after the current one untouched.
\<close>

fun atletas_loop :: "parciais \<Rightarrow> Partida list \<Rightarrow> Atleta list \<Rightarrow> laco \<Rightarrow> error option \<times> Atleta list \<times> laco" where
  "atletas_loop parciais partidas [] st = (None, [], st)"
| "atletas_loop parciais partidas (atleta # as) st =
     (case atleta_step parciais partidas atleta st of
        (Some e, atleta', st') \<Rightarrow> (Some e, atleta' # as, st')
      | (None, atleta', st') \<Rightarrow>
          (case atletas_loop parciais partidas as st' of
             (r, as', st'') \<Rightarrow> (r, atleta' # as', st'')))"

text \<open>The state of the locals and of the team's counters when the loop starts.\<close>

definition laco_inicial :: "Time \<Rightarrow> laco" where
  "laco_inicial t =
     \<lparr>time_pontos = 0, time_jogados = 0, time_reservas = reservas t,
      reserva_usado = [], creditos = []\<rparr>"

text \<open>The team object after the loop has run to the state \<open>st\<close> with starters \<open>as\<close>.\<close>

definition grava :: "Time \<Rightarrow> Atleta list \<Rightarrow> laco \<Rightarrow> Time" where
  "grava t as st =
     t\<lparr>Time.pontos := time_pontos st, jogados := Some (time_jogados st),
       atletas := as, reservas := time_reservas st\<rparr>"

text \<open>
  \<^verbatim>\<open>_calculate_parcial(time, parciais)\<close>, with the list that \<^verbatim>\<open>Api().partidas(rodada_atual)\<close>
  returns as the parameter \<open>partidas\<close>. The check of the arguments is the first statement, before
  any assignment.
\<close>

definition calculate_parcial :: "time_arg \<Rightarrow> parciais \<Rightarrow> Partida list \<Rightarrow> resultado" where
  "calculate_parcial time parciais partidas =
     (if parciais_invalidos parciais \<or> \<not> isinstance_Time time
      then Raises CartolaFCError time
      else (case time of
              ArgOutro \<Rightarrow> Raises CartolaFCError time
            | ArgTime t \<Rightarrow>
                (case atletas_loop parciais partidas (atletas t) (laco_inicial t) of
                   (None, as, st) \<Rightarrow> Returns (ArgTime (grava t as st))
                 | (Some e, as, st) \<Rightarrow> Raises e (ArgTime (grava t as st)))))"

section \<open>The second pipeline (\<^verbatim>\<open>_calculate_parcial_2\<close>)\<close>

text \<open>
  \<^verbatim>\<open>_calculate_parcial_2\<close> repeats the body of \<^verbatim>\<open>_calculate_parcial\<close> with the feed called
  \<^verbatim>\<open>parciais_2\<close> and the lookup \<^verbatim>\<open>_teste_2\<close>. Its loops are translated again from its own text;
  the loop over \<^verbatim>\<open>partidas\<close> has the same text in both functions and is \<open>jogo_finalizou\<close>.
\<close>

fun reservas_loop_2 :: "parciais \<Rightarrow> Atleta \<Rightarrow> bool \<Rightarrow> Atleta list \<Rightarrow> laco \<Rightarrow> Atleta list \<times> laco" where
  "reservas_loop_2 parciais_2 atleta jf [] st = ([], st)"
| "reservas_loop_2 parciais_2 atleta jf (reserva # rs) st =
     (let reserva1 = atualiza_reserva reserva (isinstance_Atleta (get parciais_2 (atleta_id reserva)))
      in if \<not> truthy (entrou_em_campo atleta) then
           (let foundRes = False
            in if Posicao.nome (posicao atleta) \<in> set (reserva_usado st) then (reserva1 # rs, st)
               else
                 (let st1 = (if truthy (is_capitao atleta)
                                \<and> Posicao.nome (posicao atleta) = Posicao.nome (posicao reserva1) \<and> jf
                             then credita RamoCapitao atleta reserva1 st else st)
                  in if Posicao.nome (posicao atleta) = Posicao.nome (posicao reserva1)
                        \<and> \<not> foundRes \<and> jf \<and> 0.1 \<le> Atleta.pontos reserva1
                     then (reserva1 # rs,
                           (credita RamoSubstituicao atleta reserva1 st1)
                             \<lparr>reserva_usado := reserva_usado st1 @ [Posicao.nome (posicao reserva1)]\<rparr>)
                     else (case reservas_loop_2 parciais_2 atleta jf rs st1 of
                             (rs1, st2) \<Rightarrow> (reserva1 # rs1, st2))))
         else (reserva1 # rs, st))"

definition atleta_step_2 :: "parciais \<Rightarrow> Partida list \<Rightarrow> Atleta \<Rightarrow> laco \<Rightarrow> error option \<times> Atleta \<times> laco" where
  "atleta_step_2 parciais_2 partidas atleta st =
     (let atleta_parcial_2 = teste_2 parciais_2 (atleta_id atleta);
          tem_parcial = isinstance_Atleta atleta_parcial_2;
          atleta1 = atualiza_atleta atleta tem_parcial;
          st1 = st\<lparr>time_jogados := time_jogados st + (if tem_parcial \<noteq> None then 1 else 0)\<rparr>
      in case jogo_finalizou (clube atleta1) partidas of
           Inl e \<Rightarrow> (Some e, atleta1, st1)
         | Inr jf \<Rightarrow>
             (let st2 = (case time_reservas st1 of
                           Some (r # rs) \<Rightarrow>
                             (case reservas_loop_2 parciais_2 atleta1 jf (r # rs) st1 of
                                (rs1, st') \<Rightarrow> st'\<lparr>time_reservas := Some rs1\<rparr>)
                         | _ \<Rightarrow> st1);
                  atleta2 = (if truthy (is_capitao atleta1)
                             then atleta1\<lparr>Atleta.pontos := Atleta.pontos atleta1 * 1.5\<rparr>
                             else atleta1)
              in (None, atleta2, st2\<lparr>time_pontos := time_pontos st2 + Atleta.pontos atleta2\<rparr>)))"

fun atletas_loop_2 :: "parciais \<Rightarrow> Partida list \<Rightarrow> Atleta list \<Rightarrow> laco \<Rightarrow> error option \<times> Atleta list \<times> laco" where
  "atletas_loop_2 parciais_2 partidas [] st = (None, [], st)"
| "atletas_loop_2 parciais_2 partidas (atleta # as) st =
     (case atleta_step_2 parciais_2 partidas atleta st of
        (Some e, atleta', st') \<Rightarrow> (Some e, atleta' # as, st')
      | (None, atleta', st') \<Rightarrow>
          (case atletas_loop_2 parciais_2 partidas as st' of
             (r, as', st'') \<Rightarrow> (r, atleta' # as', st'')))"

definition calculate_parcial_2 :: "time_arg \<Rightarrow> parciais \<Rightarrow> Partida list \<Rightarrow> resultado" where
  "calculate_parcial_2 time parciais_2 partidas =
     (if parciais_invalidos parciais_2 \<or> \<not> isinstance_Time time
      then Raises CartolaFCError time
      else (case time of
              ArgOutro \<Rightarrow> Raises CartolaFCError time
            | ArgTime t \<Rightarrow>
                (case atletas_loop_2 parciais_2 partidas (atletas t) (laco_inicial t) of
                   (None, as, st) \<Rightarrow> Returns (ArgTime (grava t as st))
                 | (Some e, as, st) \<Rightarrow> Raises e (ArgTime (grava t as st)))))"

section \<open>The specification's vocabulary\<close>

text \<open>
  The definitions of this section follow the words of the specification, not the code; the
  theorems compare them with the scoring pass.
\<close>

text \<open>A starter or reserve has an entry in the live feed.\<close>

definition tem_entrada :: "parciais \<Rightarrow> Atleta \<Rightarrow> bool" where
  "tem_entrada parciais a = (isinstance_Atleta (get parciais (atleta_id a)) \<noteq> None)"

text \<open>The live score looked up in the feed, 0 if absent.\<close>

definition live_score :: "parciais \<Rightarrow> Atleta \<Rightarrow> real" where
  "live_score parciais a =
     (case isinstance_Atleta (get parciais (atleta_id a)) of
        Some p \<Rightarrow> Atleta.pontos p
      | None \<Rightarrow> 0)"

text \<open>The entered-play flag looked up in the feed, false if absent.\<close>

definition entered_play :: "parciais \<Rightarrow> Atleta \<Rightarrow> bool" where
  "entered_play parciais a =
     (case isinstance_Atleta (get parciais (atleta_id a)) of
        Some p \<Rightarrow> truthy (entrou_em_campo p)
      | None \<Rightarrow> False)"

text \<open>The starter's own contribution: the live score, times 1.5 for the captain.\<close>

definition own_score :: "parciais \<Rightarrow> Atleta \<Rightarrow> real" where
  "own_score parciais a =
     (if truthy (is_capitao a) then 1.5 * live_score parciais a else live_score parciais a)"

text \<open>A match references a club when its home or away club has the club's name.\<close>

definition referencia :: "Clube \<Rightarrow> Partida \<Rightarrow> bool" where
  "referencia c p =
     (Clube.nome c = Clube.nome (clube_casa p) \<or> Clube.nome c = Clube.nome (clube_visitante p))"

text \<open>The match-finished flag that the pass computes for a club, false when it raises.\<close>

definition matchFinished :: "clube_ref \<Rightarrow> Partida list \<Rightarrow> bool" where
  "matchFinished c partidas = (jogo_finalizou c partidas = Inr True)"

text \<open>
  The substitution rule of the specification, step 2: scan the reserves in stored order; a
  reserve of the starter's position is credited when the starter is the captain and the match
  is finished (a), and is credited, marks the position and stops the scan when the match is
  finished and it has at least 0.1 points (b). The result is the points to add and the
  substituted position, if any.
\<close>

fun scanReserves :: "parciais \<Rightarrow> bool \<Rightarrow> string \<Rightarrow> bool \<Rightarrow> Atleta list \<Rightarrow> real \<times> string option" where
  "scanReserves parciais captain pos finished [] = (0, None)"
| "scanReserves parciais captain pos finished (r # rs) =
     (if Posicao.nome (posicao r) = pos then
        (let a = (if captain \<and> finished then live_score parciais r else 0)
         in if finished \<and> 0.1 \<le> live_score parciais r
            then (a + live_score parciais r, Some pos)
            else (case scanReserves parciais captain pos finished rs of
                    (pts, sub) \<Rightarrow> (a + pts, sub)))
      else scanReserves parciais captain pos finished rs)"

text \<open>
  \<^verbatim>\<open>resolveSubstitution(starter, reserves, matchFinished, positionsAlreadySubstituted)\<close>:
  nothing for a starter who entered play (3) or whose position is already substituted (1),
  the scan otherwise.
\<close>

definition resolveSubstitution ::
  "parciais \<Rightarrow> Atleta \<Rightarrow> Atleta list \<Rightarrow> bool \<Rightarrow> string set \<Rightarrow> real \<times> string option" where
  "resolveSubstitution parciais starter rs finished used =
     (if entered_play parciais starter then (0, None)
      else if Posicao.nome (posicao starter) \<in> used then (0, None)
      else scanReserves parciais (truthy (is_capitao starter))
             (Posicao.nome (posicao starter)) finished rs)"

text \<open>The positions already substituted after a starter has been resolved.\<close>

definition marca :: "string option \<Rightarrow> string set \<Rightarrow> string set" where
  "marca sub used = (case sub of None \<Rightarrow> used | Some p \<Rightarrow> insert p used)"

text \<open>
  All substitution credits of a pass: the rule applied to the starters in stored order, the
  set of substituted positions shared and growing.
\<close>

fun substitutionCredits ::
  "parciais \<Rightarrow> Partida list \<Rightarrow> Atleta list \<Rightarrow> Atleta list \<Rightarrow> string set \<Rightarrow> real" where
  "substitutionCredits parciais partidas [] rs used = 0"
| "substitutionCredits parciais partidas (s # ss) rs used =
     (case resolveSubstitution parciais s rs (matchFinished (clube s) partidas) used of
        (pts, sub) \<Rightarrow> pts + substitutionCredits parciais partidas ss rs (marca sub used))"

text \<open>The reserve list as a list: empty when the attribute is \<^verbatim>\<open>None\<close>.\<close>

definition lista_reservas :: "Atleta list option \<Rightarrow> Atleta list" where
  "lista_reservas r = (case r of None \<Rightarrow> [] | Some rs \<Rightarrow> rs)"

text \<open>The refresh of one reserve from the feed.\<close>

definition refresca :: "parciais \<Rightarrow> Atleta \<Rightarrow> Atleta" where
  "refresca parciais r = atualiza_reserva r (isinstance_Atleta (get parciais (atleta_id r)))"

text \<open>The first \<open>k\<close> reserves refreshed, the others as they were.\<close>

definition refrescados :: "parciais \<Rightarrow> nat \<Rightarrow> Atleta list \<Rightarrow> Atleta list" where
  "refrescados parciais k rs = map (refresca parciais) (take k rs) @ drop k rs"

text \<open>Every starter's club is a club or the empty string, never \<^verbatim>\<open>None\<close>.\<close>

definition clubes_resolvidos :: "Atleta list \<Rightarrow> bool" where
  "clubes_resolvidos as = list_all (\<lambda>a. clube a \<noteq> ClubeNone) as"

text \<open>The credits of a log that the substitution statement made.\<close>

definition substituicoes :: "credito list \<Rightarrow> credito list" where
  "substituicoes cs = filter (\<lambda>c. cr_ramo c = RamoSubstituicao) cs"

text \<open>
  At most one reserve is credited per position: two credits for the same position are credits
  of the same reserve.
\<close>

definition uma_reserva_por_posicao :: "credito list \<Rightarrow> bool" where
  "uma_reserva_por_posicao cs =
     list_all (\<lambda>c. list_all (\<lambda>d. cr_posicao c = cr_posicao d \<longrightarrow> cr_reserva c = cr_reserva d) cs) cs"

text \<open>After a credit of the substitution statement, no later credit is for its position.\<close>

fun posicao_fechada :: "credito list \<Rightarrow> bool" where
  "posicao_fechada [] = True"
| "posicao_fechada (c # cs) =
     ((cr_ramo c = RamoSubstituicao \<longrightarrow> list_all (\<lambda>d. cr_posicao d \<noteq> cr_posicao c) cs)
      \<and> posicao_fechada cs)"

section \<open>A small round\<close>

text \<open>
  One match, finished by its label only; a team whose captain (an attacker) did not enter
  play, whose goalkeeper played and whose third starter has no live entry; three reserves
  that still carry 7 points from an earlier round.
\<close>

definition ex_atacante :: Posicao where
  "ex_atacante = \<lparr>posicao_id = 5, nome = ''Atacante'', abreviacao = ''ATA''\<rparr>"

definition ex_goleiro :: Posicao where
  "ex_goleiro = \<lparr>posicao_id = 1, nome = ''Goleiro'', abreviacao = ''GOL''\<rparr>"

definition ex_flamengo :: Clube where
  "ex_flamengo = \<lparr>clube_id = 262, nome = ''Flamengo'', abreviacao = ''FLA'', escudos = ''''\<rparr>"

definition ex_vasco :: Clube where
  "ex_vasco = \<lparr>clube_id = 267, nome = ''Vasco'', abreviacao = ''VAS'', escudos = ''''\<rparr>"

definition ex_partida :: Partida where
  "ex_partida =
     \<lparr>local = ''Maracana'', valida = True, clube_casa = ex_flamengo, placar_casa = Some 1,
      clube_visitante = ex_vasco, placar_visitante = Some 0, fim_de_jogo = ''veja como foi'',
      status_transmissao_tr = ''EM_ANDAMENTO''\<rparr>"

definition ex_atleta :: "int \<Rightarrow> Posicao \<Rightarrow> real \<Rightarrow> bool option \<Rightarrow> bool option \<Rightarrow> Atleta" where
  "ex_atleta i pos p e c =
     \<lparr>atleta_id = i, apelido = ''Jogador'', nome = None, pontos = p, scout = ScoutVazio,
      posicao = pos, entrou_em_campo = e, clube = ClubeObj ex_flamengo, is_capitao = c\<rparr>"

definition ex_parciais :: parciais where
  "ex_parciais =
     [(ChaveInt 1, ValorAtleta (ex_atleta 1 ex_atacante 8 (Some False) None)),
      (ChaveInt 2, ValorAtleta (ex_atleta 2 ex_goleiro 5 (Some True) None)),
      (ChaveInt 10, ValorAtleta (ex_atleta 10 ex_atacante 0.05 (Some True) None)),
      (ChaveInt 11, ValorAtleta (ex_atleta 11 ex_atacante 4 (Some True) None)),
      (ChaveInt 12, ValorAtleta (ex_atleta 12 ex_goleiro 3 (Some True) None))]"

definition ex_capitao :: Atleta where
  "ex_capitao = ex_atleta 1 ex_atacante 0 None (Some True)"

definition ex_titular :: Atleta where
  "ex_titular = ex_atleta 2 ex_goleiro 0 None (Some False)"

definition ex_ausente :: Atleta where
  "ex_ausente = ex_atleta 3 ex_goleiro 0 None (Some False)"

definition ex_reservas :: "Atleta list" where
  "ex_reservas =
     [ex_atleta 10 ex_atacante 7 None (Some False),
      ex_atleta 11 ex_atacante 7 None (Some False),
      ex_atleta 12 ex_goleiro 7 None (Some False)]"

definition ex_time :: Time where
  "ex_time =
     \<lparr>patrimonio = 100, valor_time = 90, ultima_pontuacao = 50,
      atletas = [ex_capitao, ex_titular, ex_ausente],
      reservas = Some ex_reservas, pontos = 99, rodada_atual = 1, jogados = None\<rparr>"

text \<open>What the pass leaves in the team and in the ghost log on this round.\<close>

definition ex_resultado :: Time where
  "ex_resultado =
     ex_time\<lparr>Time.pontos := 28.05, jogados := Some 2,
       atletas :=
         [(ex_atleta 1 ex_atacante 12 (Some False) (Some True))\<lparr>Atleta.nome := Some ''Jogador''\<rparr>,
          (ex_atleta 2 ex_goleiro 5 (Some True) (Some False))\<lparr>Atleta.nome := Some ''Jogador''\<rparr>,
          (ex_atleta 3 ex_goleiro 0 (Some False) (Some False))
            \<lparr>Atleta.nome := Some '''', scout := ScoutDict []\<rparr>],
       reservas :=
         Some [ex_atleta 10 ex_atacante 0.05 None (Some False),
               ex_atleta 11 ex_atacante 4 None (Some False),
               ex_atleta 12 ex_goleiro 3 None (Some False)]\<rparr>"

definition ex_creditos :: "credito list" where
  "ex_creditos =
     [\<lparr>cr_ramo = RamoCapitao, cr_posicao = ''Atacante'', cr_reserva = 10, cr_pontos = 0.05\<rparr>,
      \<lparr>cr_ramo = RamoCapitao, cr_posicao = ''Atacante'', cr_reserva = 11, cr_pontos = 4\<rparr>,
      \<lparr>cr_ramo = RamoSubstituicao, cr_posicao = ''Atacante'', cr_reserva = 11, cr_pontos = 4\<rparr>,
      \<lparr>cr_ramo = RamoSubstituicao, cr_posicao = ''Goleiro'', cr_reserva = 12, cr_pontos = 3\<rparr>]"

text \<open>
  The starter as an iteration that is not interrupted leaves it: the four assignments from the
  live entry, then the live score multiplied for the captain.
\<close>

definition titular_apos :: "parciais \<Rightarrow> Atleta \<Rightarrow> Atleta" where
  "titular_apos parciais a =
     (atualiza_atleta a (isinstance_Atleta (get parciais (atleta_id a))))
       \<lparr>Atleta.pontos := own_score parciais a\<rparr>"

section \<open>The credits of one starter\<close>

text \<open>
  The credits that one scan of the reserves makes for a starter of position \<open>pos\<close> whose match
  is finished: for each reserve of that position, in stored order, first the captain statement
  credits its live score when the starter is the captain, then the substitution statement
  credits it, and the scan stops, when its live score is at least 0.1.
\<close>

fun creditos_varredura :: "parciais \<Rightarrow> bool \<Rightarrow> string \<Rightarrow> Atleta list \<Rightarrow> credito list" where
  "creditos_varredura parciais captain pos [] = []"
| "creditos_varredura parciais captain pos (r # rs) =
     (if Posicao.nome (posicao r) = pos then
        (if captain
         then [\<lparr>cr_ramo = RamoCapitao, cr_posicao = pos, cr_reserva = atleta_id r,
                 cr_pontos = live_score parciais r\<rparr>]
         else [])
        @ (if 0.1 \<le> live_score parciais r
           then [\<lparr>cr_ramo = RamoSubstituicao, cr_posicao = pos, cr_reserva = atleta_id r,
                   cr_pontos = live_score parciais r\<rparr>]
           else creditos_varredura parciais captain pos rs)
      else creditos_varredura parciais captain pos rs)"

text \<open>
  The credits of one starter iteration: none when the starter entered play, when the starter's
  position is already substituted or when the club's match is not finished; the scan otherwise.
\<close>

definition creditos_titular ::
  "parciais \<Rightarrow> Atleta \<Rightarrow> Atleta list \<Rightarrow> bool \<Rightarrow> string set \<Rightarrow> credito list" where
  "creditos_titular parciais starter rs finished used =
     (if entered_play parciais starter \<or> Posicao.nome (posicao starter) \<in> used \<or> \<not> finished
      then []
      else creditos_varredura parciais (truthy (is_capitao starter))
             (Posicao.nome (posicao starter)) rs)"

section \<open>A club missing from the club table\<close>

text \<open>
  \<^verbatim>\<open>Atleta.from_dict\<close> stores \<^verbatim>\<open>clubes.get(data['clube_id'])\<close>, which is \<^verbatim>\<open>None\<close> when the club
  id is not a key of the club table. Here the captain of the small round is such a player, and
  the team has the goalkeeper first, the captain second and the starter without live entry
  third.
\<close>

definition ex_capitao_sem_clube :: Atleta where
  "ex_capitao_sem_clube = ex_capitao\<lparr>clube := ClubeNone\<rparr>"

definition ex_time_sem_clube :: Time where
  "ex_time_sem_clube = ex_time\<lparr>atletas := [ex_titular, ex_capitao_sem_clube, ex_ausente]\<rparr>"

section \<open>The small round, evaluated\<close>

lemmas ex_defs = ex_atacante_def ex_goleiro_def ex_flamengo_def ex_vasco_def ex_partida_def
  ex_atleta_def ex_parciais_def ex_capitao_def ex_titular_def ex_ausente_def ex_reservas_def
  ex_time_def ex_resultado_def ex_creditos_def

lemmas run_defs = laco_inicial_def atleta_step_def jogo_finalizou_def encerrada_def teste_def
  get_def atualiza_atleta_def atualiza_reserva_def credita_def truthy_def grava_def Let_def

lemmas sem_clube_defs = ex_capitao_sem_clube_def ex_time_sem_clube_def

lemma ex_laco:
  "atletas_loop ex_parciais [ex_partida] (atletas ex_time) (laco_inicial ex_time) =
     (None, atletas ex_resultado,
      \<lparr>time_pontos = 28.05, time_jogados = 2, time_reservas = reservas ex_resultado,
       reserva_usado = [''Atacante'', ''Goleiro''], creditos = ex_creditos\<rparr>)"
  by (simp add: ex_defs run_defs)

lemma ex_valido: "\<not> parciais_invalidos ex_parciais"
  by (simp add: parciais_invalidos_def ex_parciais_def)

lemma ex_calculate:
  "calculate_parcial (ArgTime ex_time) ex_parciais [ex_partida] = Returns (ArgTime ex_resultado)"
  by (simp add: calculate_parcial_def ex_valido ex_laco) (simp add: ex_defs grava_def)

section \<open>The two pipelines are one\<close>

lemma reservas_loop_2_eq: "reservas_loop_2 p a jf rs st = reservas_loop p a jf rs st"
  by (induction rs arbitrary: st) (simp_all add: Let_def)

lemma reservas_loop_2_fun: "reservas_loop_2 = reservas_loop"
  by (intro ext) (rule reservas_loop_2_eq)

lemma teste_2_fun: "teste_2 = teste"
  by (intro ext) (simp add: teste_def teste_2_def)

lemma atleta_step_2_eq: "atleta_step_2 p ps a st = atleta_step p ps a st"
  unfolding atleta_step_2_def atleta_step_def reservas_loop_2_fun teste_2_fun ..

lemma atletas_loop_2_eq: "atletas_loop_2 p ps as st = atletas_loop p ps as st"
proof (induction as arbitrary: st)
  case Nil
  show ?case by simp
next
  case (Cons a as)
  show ?case
    unfolding atletas_loop_2.simps atletas_loop.simps atleta_step_2_eq Cons.IH ..
qed

lemma atletas_loop_2_fun: "atletas_loop_2 = atletas_loop"
  by (intro ext) (rule atletas_loop_2_eq)

text \<open>
  C9. For every first argument (a team or not), every feed (valid or not) and every match
  list, \<^verbatim>\<open>_calculate_parcial_2\<close> has the outcome of \<^verbatim>\<open>_calculate_parcial\<close>: the same exception
  or the same returned team, hence the same \<^verbatim>\<open>pontos\<close>, the same \<^verbatim>\<open>jogados\<close> and the same
  starters and reserves.
\<close>

theorem calculate_parcial_2_equiv:
  "calculate_parcial_2 time parciais partidas = calculate_parcial time parciais partidas"
  unfolding calculate_parcial_2_def calculate_parcial_def atletas_loop_2_fun ..

theorem calculate_parcial_2_equiv_witness:
  "calculate_parcial_2 (ArgTime ex_time) ex_parciais [ex_partida] = Returns (ArgTime ex_resultado)"
  using calculate_parcial_2_equiv [of "ArgTime ex_time" ex_parciais "[ex_partida]"] ex_calculate
  by simp

section \<open>The check of the arguments\<close>

lemma parciais_invalidos_iff:
  "parciais_invalidos parciais \<longleftrightarrow>
     (\<exists>k v. map_of parciais k = Some v \<and> (\<not> isinstance_int k \<or> v = ValorOutro))"
proof -
  have dom: "k \<in> fst ` set parciais \<longleftrightarrow> (\<exists>v. map_of parciais k = Some v)" for k
    by (metis domIff dom_map_of_conv_image_fst option.exhaust option.distinct(1))
  have val: "(isinstance_Atleta (Some v) = None) = (v = ValorOutro)" for v
    by (cases v) simp_all
  have "parciais_invalidos parciais \<longleftrightarrow>
      (\<exists>k \<in> fst ` set parciais. \<not> isinstance_int k \<or> isinstance_Atleta (map_of parciais k) = None)"
    by (simp add: parciais_invalidos_def list_ex_iff)
  also have "\<dots> \<longleftrightarrow> (\<exists>k v. map_of parciais k = Some v \<and>
      (\<not> isinstance_int k \<or> isinstance_Atleta (map_of parciais k) = None))"
    using dom by blast
  also have "\<dots> \<longleftrightarrow> (\<exists>k v. map_of parciais k = Some v \<and> (\<not> isinstance_int k \<or> v = ValorOutro))"
    using val by (metis)
  finally show ?thesis .
qed

text \<open>
  C4. If the feed maps some key that is not an integer, or maps some key to a value that is
  not an \<^verbatim>\<open>Atleta\<close>, or the first argument is not a \<^verbatim>\<open>Time\<close>, then \<^verbatim>\<open>_calculate_parcial\<close>
  raises \<^verbatim>\<open>CartolaFCError\<close>, and the object passed as \<^verbatim>\<open>time\<close> is in the state in which
  it was passed: \<^verbatim>\<open>pontos\<close>, \<^verbatim>\<open>jogados\<close>, starters and reserves keep their values.
\<close>

theorem calculate_parcial_invalid:
  assumes "(\<exists>k v. map_of parciais k = Some v \<and> (\<not> isinstance_int k \<or> v = ValorOutro))
           \<or> time = ArgOutro"
  shows "calculate_parcial time parciais partidas = Raises CartolaFCError time"
proof (cases time)
  case ArgOutro
  then show ?thesis by (simp add: calculate_parcial_def)
next
  case (ArgTime t)
  with assms have "parciais_invalidos parciais"
    by (simp add: parciais_invalidos_iff)
  then show ?thesis by (simp add: calculate_parcial_def)
qed

theorem calculate_parcial_invalid_witness:
  "calculate_parcial (ArgTime ex_time) [(ChaveStr ''38162'', ValorOutro)] [ex_partida]
     = Raises CartolaFCError (ArgTime ex_time)
   \<and> calculate_parcial (ArgTime ex_time)
       ((ChaveStr ''38162'', ValorAtleta ex_titular) # ex_parciais) [ex_partida]
     = Raises CartolaFCError (ArgTime ex_time)
   \<and> calculate_parcial ArgOutro ex_parciais [ex_partida] = Raises CartolaFCError ArgOutro"
proof -
  have a: "\<exists>k v. map_of [(ChaveStr ''38162'', ValorOutro)] k = Some v
              \<and> (\<not> isinstance_int k \<or> v = ValorOutro)"
    by (intro exI [of _ "ChaveStr ''38162''"] exI [of _ ValorOutro]) simp
  have b: "\<exists>k v. map_of ((ChaveStr ''38162'', ValorAtleta ex_titular) # ex_parciais) k = Some v
              \<and> (\<not> isinstance_int k \<or> v = ValorOutro)"
    by (intro exI [of _ "ChaveStr ''38162''"] exI [of _ "ValorAtleta ex_titular"]) simp
  show ?thesis
    using calculate_parcial_invalid
        [of "[(ChaveStr ''38162'', ValorOutro)]" "ArgTime ex_time" "[ex_partida]"]
      calculate_parcial_invalid
        [of "(ChaveStr ''38162'', ValorAtleta ex_titular) # ex_parciais" "ArgTime ex_time"
            "[ex_partida]"]
      calculate_parcial_invalid [of ex_parciais ArgOutro "[ex_partida]"] a b
    by blast
qed

section \<open>The match loop\<close>

lemma partidas_loop_vazio: "partidas_loop ClubeVazio ps jf = Inr jf"
  by (induction ps) simp_all

lemma partidas_loop_obj:
  "partidas_loop (ClubeObj c) ps jf =
     Inr (if filter (referencia c) ps = [] then jf else encerrada (last (filter (referencia c) ps)))"
  by (induction ps arbitrary: jf) (simp_all add: referencia_def)

text \<open>
  A starter whose club is \<^verbatim>\<open>None\<close> stops the pass with \<^verbatim>\<open>AttributeError\<close> as soon as the
  round has a match; every other club reference gives a flag.
\<close>

lemma jogo_finalizou_none: "jogo_finalizou ClubeNone (p # ps) = Inl AttributeError"
  by (simp add: jogo_finalizou_def)

lemma jogo_finalizou_total:
  "c \<noteq> ClubeNone \<Longrightarrow> \<exists>jf. jogo_finalizou c ps = Inr jf"
  by (cases c) (auto simp: jogo_finalizou_def partidas_loop_vazio partidas_loop_obj)

text \<open>
  C6, as stated, fails: the match of the small round references Flamengo, its broadcast
  status is not \<^verbatim>\<open>ENCERRADA\<close> and it is valid, and yet the flag is true, because the label
  \<^verbatim>\<open>fim_de_jogo\<close> is \<^verbatim>\<open>veja como foi\<close>.
\<close>

theorem jogo_finalizou_status_counterexample:
  "jogo_finalizou (ClubeObj ex_flamengo) [ex_partida] = Inr True
   \<and> referencia ex_flamengo ex_partida
   \<and> status_transmissao_tr ex_partida \<noteq> ''ENCERRADA''
   \<and> valida ex_partida"
  by (simp add: jogo_finalizou_def encerrada_def referencia_def ex_partida_def ex_flamengo_def)

text \<open>
  C6, amended. The flag is false for the empty club reference. For a club, it is false when no
  match of the list has a home or away club of that name; otherwise it is decided by the last
  such match of the list alone, and is true exactly when that match's label \<^verbatim>\<open>fim_de_jogo\<close> is
  \<^verbatim>\<open>veja como foi\<close>, or its status \<^verbatim>\<open>status_transmissao_tr\<close> is \<^verbatim>\<open>ENCERRADA\<close>, or it is not
  valid.
\<close>

theorem jogo_finalizou_last_match:
  "jogo_finalizou ClubeVazio partidas = Inr False
   \<and> jogo_finalizou (ClubeObj c) partidas =
       Inr (filter (referencia c) partidas \<noteq> []
            \<and> (fim_de_jogo (last (filter (referencia c) partidas)) = ''veja como foi''
               \<or> status_transmissao_tr (last (filter (referencia c) partidas)) = ''ENCERRADA''
               \<or> \<not> valida (last (filter (referencia c) partidas))))"
  by (simp add: jogo_finalizou_def partidas_loop_vazio partidas_loop_obj encerrada_def)

theorem jogo_finalizou_last_match_witness:
  "jogo_finalizou ClubeVazio [ex_partida, ex_partida\<lparr>fim_de_jogo := ''''\<rparr>] = Inr False
   \<and> jogo_finalizou (ClubeObj ex_vasco) [ex_partida, ex_partida\<lparr>fim_de_jogo := ''''\<rparr>] = Inr False
   \<and> jogo_finalizou (ClubeObj ex_vasco) [ex_partida\<lparr>fim_de_jogo := ''''\<rparr>, ex_partida] = Inr True"
  using jogo_finalizou_last_match [of "[ex_partida, ex_partida\<lparr>fim_de_jogo := ''''\<rparr>]" ex_vasco]
    jogo_finalizou_last_match [of "[ex_partida\<lparr>fim_de_jogo := ''''\<rparr>, ex_partida]" ex_vasco]
  by (simp add: referencia_def ex_partida_def ex_vasco_def ex_flamengo_def)

section \<open>The reserve loop\<close>

lemma refresca_id [simp]: "atleta_id (refresca p r) = atleta_id r"
  by (simp add: refresca_def atualiza_reserva_def split: option.splits)

lemma refresca_posicao [simp]: "posicao (refresca p r) = posicao r"
  by (simp add: refresca_def atualiza_reserva_def split: option.splits)

lemma refresca_pontos [simp]: "Atleta.pontos (refresca p r) = live_score p r"
  by (simp add: refresca_def atualiza_reserva_def live_score_def split: option.splits)

lemma refresca_idem [simp]: "refresca p (refresca p r) = refresca p r"
  by (simp add: refresca_def atualiza_reserva_def split: option.splits)

lemma credita_fields [simp]:
  "time_pontos (credita b a r st) = time_pontos st + Atleta.pontos r"
  "time_jogados (credita b a r st) = time_jogados st"
  "time_reservas (credita b a r st) = time_reservas st"
  "reserva_usado (credita b a r st) = reserva_usado st"
  "creditos (credita b a r st) = creditos st @
     [\<lparr>cr_ramo = b, cr_posicao = Posicao.nome (posicao a), cr_reserva = atleta_id r,
       cr_pontos = Atleta.pontos r\<rparr>]"
  by (simp_all add: credita_def)

lemma reservas_loop_Cons:
  "reservas_loop p a jf (r # rs) st =
     (if truthy (entrou_em_campo a) \<or> Posicao.nome (posicao a) \<in> set (reserva_usado st)
      then (refresca p r # rs, st)
      else if Posicao.nome (posicao a) = Posicao.nome (posicao r) \<and> jf \<and> 0.1 \<le> live_score p r
      then (refresca p r # rs,
            (credita RamoSubstituicao a (refresca p r)
               (if truthy (is_capitao a) then credita RamoCapitao a (refresca p r) st else st))
              \<lparr>reserva_usado := reserva_usado st @ [Posicao.nome (posicao a)]\<rparr>)
      else (refresca p r #
              fst (reservas_loop p a jf rs
                    (if truthy (is_capitao a)
                        \<and> Posicao.nome (posicao a) = Posicao.nome (posicao r) \<and> jf
                     then credita RamoCapitao a (refresca p r) st else st)),
            snd (reservas_loop p a jf rs
                    (if truthy (is_capitao a)
                        \<and> Posicao.nome (posicao a) = Posicao.nome (posicao r) \<and> jf
                     then credita RamoCapitao a (refresca p r) st else st))))"
  by (simp add: Let_def refresca_def [symmetric] case_prod_beta)

lemmas [simp del] = reservas_loop.simps(2)

lemma reservas_loop_skip:
  "truthy (entrou_em_campo a) \<or> Posicao.nome (posicao a) \<in> set (reserva_usado st) \<Longrightarrow>
   snd (reservas_loop p a jf rs st) = st"
  by (cases rs) (simp_all add: reservas_loop_Cons)

lemma reservas_loop_jogados [simp]:
  "time_jogados (snd (reservas_loop p a jf rs st)) = time_jogados st"
  by (induction rs arbitrary: st) (simp_all add: reservas_loop_Cons)

lemma reservas_loop_reservas [simp]:
  "time_reservas (snd (reservas_loop p a jf rs st)) = time_reservas st"
  by (induction rs arbitrary: st) (simp_all add: reservas_loop_Cons)

lemma reservas_loop_scan:
  "\<not> truthy (entrou_em_campo a) \<Longrightarrow> Posicao.nome (posicao a) \<notin> set (reserva_usado st) \<Longrightarrow>
   time_pontos (snd (reservas_loop p a jf rs st)) =
     time_pontos st + fst (scanReserves p (truthy (is_capitao a)) (Posicao.nome (posicao a)) jf rs)
   \<and> reserva_usado (snd (reservas_loop p a jf rs st)) =
     reserva_usado st @
       (case snd (scanReserves p (truthy (is_capitao a)) (Posicao.nome (posicao a)) jf rs) of
          None \<Rightarrow> [] | Some x \<Rightarrow> [x])"
proof (induction rs arbitrary: st)
  case Nil
  show ?case by simp
next
  case (Cons r rs)
  show ?case
    using Cons.prems Cons.IH [of st] Cons.IH [of "credita RamoCapitao a (refresca p r) st"]
    by (auto simp: reservas_loop_Cons Let_def case_prod_beta)
qed


lemma live_score_refresca [simp]: "live_score p (refresca p r) = live_score p r"
  by (simp add: live_score_def)

lemma refrescados_0 [simp]: "refrescados p 0 rs = rs"
  by (simp add: refrescados_def)

lemma refrescados_Nil [simp]: "refrescados p k [] = []"
  by (simp add: refrescados_def)

lemma refrescados_Suc [simp]:
  "refrescados p (Suc k) (r # rs) = refresca p r # refrescados p k rs"
  by (simp add: refrescados_def)

lemma length_refrescados [simp]: "length (refrescados p k rs) = length rs"
  by (simp add: refrescados_def)

lemma refrescados_ids [simp]: "map atleta_id (refrescados p k rs) = map atleta_id rs"
proof -
  have "map atleta_id (refrescados p k rs) = map atleta_id (take k rs) @ map atleta_id (drop k rs)"
    by (simp add: refrescados_def)
  also have "\<dots> = map atleta_id rs"
    by (simp flip: map_append)
  finally show ?thesis .
qed

lemma refrescados_posicoes [simp]: "map posicao (refrescados p k rs) = map posicao rs"
proof -
  have "map posicao (refrescados p k rs) = map posicao (take k rs) @ map posicao (drop k rs)"
    by (simp add: refrescados_def)
  also have "\<dots> = map posicao rs"
    by (simp flip: map_append)
  finally show ?thesis .
qed

lemma refrescados_refrescados:
  "refrescados p j (refrescados p k rs) = refrescados p (max j k) rs"
proof (induction rs arbitrary: j k)
  case Nil
  show ?case by simp
next
  case (Cons r rs)
  show ?case
    by (cases j; cases k) (simp_all add: Cons.IH)
qed

lemma reservas_loop_refrescados:
  "\<exists>k. k \<le> length rs \<and> (rs \<noteq> [] \<longrightarrow> 1 \<le> k)
       \<and> (truthy (entrou_em_campo a) \<or> Posicao.nome (posicao a) \<in> set (reserva_usado st)
            \<longrightarrow> k \<le> 1)
       \<and> fst (reservas_loop p a jf rs st) = refrescados p k rs"
proof (induction rs arbitrary: st)
  case Nil
  show ?case by simp
next
  case (Cons r rs)
  let ?st1 = "if truthy (is_capitao a) \<and> Posicao.nome (posicao a) = Posicao.nome (posicao r) \<and> jf
              then credita RamoCapitao a (refresca p r) st else st"
  obtain k where k: "k \<le> length rs" "fst (reservas_loop p a jf rs ?st1) = refrescados p k rs"
    using Cons.IH [of ?st1] by blast
  show ?case
  proof (cases "truthy (entrou_em_campo a) \<or> Posicao.nome (posicao a) \<in> set (reserva_usado st)
                \<or> (Posicao.nome (posicao a) = Posicao.nome (posicao r) \<and> jf \<and> 0.1 \<le> live_score p r)")
    case True
    then have "fst (reservas_loop p a jf (r # rs) st) = refrescados p (Suc 0) (r # rs)"
      by (auto simp: reservas_loop_Cons)
    then show ?thesis
      by (intro exI [of _ "Suc 0"]) simp
  next
    case False
    then have "fst (reservas_loop p a jf (r # rs) st) = refrescados p (Suc k) (r # rs)"
      using k by (auto simp: reservas_loop_Cons)
    then show ?thesis
      using k False by (intro exI [of _ "Suc k"]) simp
  qed
qed

lemma reservas_loop_again:
  "\<exists>m. fst (reservas_loop p a jf rs st) = refrescados p m rs
       \<and> (\<forall>j. fst (reservas_loop p a jf (refrescados p j rs) st) = refrescados p (max j m) rs
              \<and> snd (reservas_loop p a jf (refrescados p j rs) st) = snd (reservas_loop p a jf rs st))"
proof (induction rs arbitrary: st)
  case Nil
  show ?case by simp
next
  case (Cons r rs)
  let ?st1 = "if truthy (is_capitao a) \<and> Posicao.nome (posicao a) = Posicao.nome (posicao r) \<and> jf
              then credita RamoCapitao a (refresca p r) st else st"
  obtain m where m: "fst (reservas_loop p a jf rs ?st1) = refrescados p m rs"
      "\<And>j. fst (reservas_loop p a jf (refrescados p j rs) ?st1) = refrescados p (max j m) rs"
      "\<And>j. snd (reservas_loop p a jf (refrescados p j rs) ?st1) = snd (reservas_loop p a jf rs ?st1)"
    using Cons.IH [of ?st1] by blast
  show ?case
  proof (cases "truthy (entrou_em_campo a) \<or> Posicao.nome (posicao a) \<in> set (reserva_usado st)
                \<or> (Posicao.nome (posicao a) = Posicao.nome (posicao r) \<and> jf \<and> 0.1 \<le> live_score p r)")
    case True
    have "fst (reservas_loop p a jf (refrescados p j (r # rs)) st) = refrescados p (max j (Suc 0)) (r # rs)
        \<and> snd (reservas_loop p a jf (refrescados p j (r # rs)) st) = snd (reservas_loop p a jf (r # rs) st)" for j
      using True by (cases j) (auto simp: reservas_loop_Cons)
    moreover have "fst (reservas_loop p a jf (r # rs) st) = refrescados p (Suc 0) (r # rs)"
      using True by (auto simp: reservas_loop_Cons)
    ultimately show ?thesis by blast
  next
    case False
    have "fst (reservas_loop p a jf (refrescados p j (r # rs)) st) = refrescados p (max j (Suc m)) (r # rs)
        \<and> snd (reservas_loop p a jf (refrescados p j (r # rs)) st) = snd (reservas_loop p a jf (r # rs) st)" for j
    proof (cases j)
      case 0
      then show ?thesis using False m(1) by (auto simp: reservas_loop_Cons)
    next
      case (Suc i)
      then show ?thesis using False m(2) [of i] m(3) [of i] by (auto simp: reservas_loop_Cons)
    qed
    moreover have "fst (reservas_loop p a jf (r # rs) st) = refrescados p (Suc m) (r # rs)"
      using False m(1) by (auto simp: reservas_loop_Cons)
    ultimately show ?thesis by blast
  qed
qed

lemma substituicoes_snoc [simp]:
  "substituicoes (cs @ [c]) = substituicoes cs @ (if cr_ramo c = RamoSubstituicao then [c] else [])"
  by (simp add: substituicoes_def)

lemma posicao_fechada_snoc:
  "posicao_fechada (cs @ [c]) =
     (posicao_fechada cs \<and> (\<forall>x\<in>set cs. cr_ramo x = RamoSubstituicao \<longrightarrow> cr_posicao x \<noteq> cr_posicao c))"
  by (induction cs) (auto simp: list_all_iff)

lemma usado_substituicoes:
  "reserva_usado st = map cr_posicao (substituicoes (creditos st)) \<Longrightarrow>
   pos \<notin> set (reserva_usado st) \<Longrightarrow>
   \<forall>x\<in>set (creditos st). cr_ramo x = RamoSubstituicao \<longrightarrow> cr_posicao x \<noteq> pos"
  by (auto simp: substituicoes_def)

lemma reservas_loop_inv:
  "reserva_usado st = map cr_posicao (substituicoes (creditos st)) \<Longrightarrow>
   posicao_fechada (creditos st) \<Longrightarrow>
   reserva_usado (snd (reservas_loop p a jf rs st)) =
     map cr_posicao (substituicoes (creditos (snd (reservas_loop p a jf rs st))))
   \<and> posicao_fechada (creditos (snd (reservas_loop p a jf rs st)))"
proof (induction rs arbitrary: st)
  case Nil
  then show ?case by simp
next
  case (Cons r rs)
  let ?c = "credita RamoCapitao a (refresca p r) st"
  show ?case
  proof (cases "truthy (entrou_em_campo a) \<or> Posicao.nome (posicao a) \<in> set (reserva_usado st)")
    case True
    then show ?thesis using Cons.prems by (auto simp: reservas_loop_Cons)
  next
    case False
    note fresh = usado_substituicoes [OF Cons.prems(1), of "Posicao.nome (posicao a)"]
    have c: "reserva_usado ?c = map cr_posicao (substituicoes (creditos ?c))"
            "posicao_fechada (creditos ?c)"
      using Cons.prems False fresh by (simp_all add: posicao_fechada_snoc)
    show ?thesis
      using False Cons.prems fresh Cons.IH [OF Cons.prems] Cons.IH [OF c]
      by (auto simp: reservas_loop_Cons posicao_fechada_snoc)
  qed
qed

lemma reservas_loop_creditos:
  "\<exists>new. creditos (snd (reservas_loop p a jf rs st)) = creditos st @ new
     \<and> time_pontos (snd (reservas_loop p a jf rs st)) = time_pontos st + sum_list (map cr_pontos new)
     \<and> (\<forall>c\<in>set new. cr_posicao c = Posicao.nome (posicao a)
            \<and> (\<exists>r\<in>set rs. cr_reserva c = atleta_id r \<and> cr_pontos c = live_score p r))"
proof (induction rs arbitrary: st)
  case Nil
  show ?case by simp
next
  case (Cons r rs)
  let ?c = "credita RamoCapitao a (refresca p r) st"
  obtain n1 where n1: "creditos (snd (reservas_loop p a jf rs st)) = creditos st @ n1"
     "time_pontos (snd (reservas_loop p a jf rs st)) = time_pontos st + sum_list (map cr_pontos n1)"
     "\<forall>c\<in>set n1. cr_posicao c = Posicao.nome (posicao a)
            \<and> (\<exists>r\<in>set rs. cr_reserva c = atleta_id r \<and> cr_pontos c = live_score p r)"
    using Cons.IH [of st] by blast
  obtain n2 where n2: "creditos (snd (reservas_loop p a jf rs ?c)) = creditos ?c @ n2"
     "time_pontos (snd (reservas_loop p a jf rs ?c)) = time_pontos ?c + sum_list (map cr_pontos n2)"
     "\<forall>c\<in>set n2. cr_posicao c = Posicao.nome (posicao a)
            \<and> (\<exists>r\<in>set rs. cr_reserva c = atleta_id r \<and> cr_pontos c = live_score p r)"
    using Cons.IH [of ?c] by blast
  let ?cap = "\<lparr>cr_ramo = RamoCapitao, cr_posicao = Posicao.nome (posicao a),
               cr_reserva = atleta_id r, cr_pontos = live_score p r\<rparr>"
  let ?sub = "\<lparr>cr_ramo = RamoSubstituicao, cr_posicao = Posicao.nome (posicao a),
               cr_reserva = atleta_id r, cr_pontos = live_score p r\<rparr>"
  let ?goal = "\<lambda>new. creditos (snd (reservas_loop p a jf (r # rs) st)) = creditos st @ new
     \<and> time_pontos (snd (reservas_loop p a jf (r # rs) st)) = time_pontos st + sum_list (map cr_pontos new)
     \<and> (\<forall>c\<in>set new. cr_posicao c = Posicao.nome (posicao a)
            \<and> (\<exists>r'\<in>set (r # rs). cr_reserva c = atleta_id r' \<and> cr_pontos c = live_score p r'))"
  consider (skip) "truthy (entrou_em_campo a) \<or> Posicao.nome (posicao a) \<in> set (reserva_usado st)"
    | (sub) "\<not> (truthy (entrou_em_campo a) \<or> Posicao.nome (posicao a) \<in> set (reserva_usado st))"
            "Posicao.nome (posicao a) = Posicao.nome (posicao r) \<and> jf \<and> 0.1 \<le> live_score p r"
    | (cont) "\<not> (truthy (entrou_em_campo a) \<or> Posicao.nome (posicao a) \<in> set (reserva_usado st))"
            "\<not> (Posicao.nome (posicao a) = Posicao.nome (posicao r) \<and> jf \<and> 0.1 \<le> live_score p r)"
    by blast
  then have "\<exists>new. ?goal new"
  proof cases
    case skip
    then have "?goal []" by (auto simp: reservas_loop_Cons)
    then show ?thesis ..
  next
    case sub
    then have "?goal (if truthy (is_capitao a) then [?cap, ?sub] else [?sub])"
      by (auto simp: reservas_loop_Cons)
    then show ?thesis ..
  next
    case cont
    show ?thesis
    proof (cases "truthy (is_capitao a) \<and> Posicao.nome (posicao a) = Posicao.nome (posicao r) \<and> jf")
      case True
      with cont n2 have "?goal (?cap # n2)"
        by (auto simp: reservas_loop_Cons)
      then show ?thesis ..
    next
      case False
      with cont n1 have "?goal n1"
        by (auto simp: reservas_loop_Cons)
      then show ?thesis ..
    qed
  qed
  then show ?case .
qed

lemma scanReserves_refrescados [simp]:
  "scanReserves p c pos f (refrescados p k rs) = scanReserves p c pos f rs"
proof (induction rs arbitrary: k)
  case Nil
  show ?case by simp
next
  case (Cons r rs)
  show ?case by (cases k) (simp_all add: Cons.IH Let_def)
qed

lemma resolveSubstitution_refrescados [simp]:
  "resolveSubstitution p s (refrescados p k rs) f used = resolveSubstitution p s rs f used"
  by (simp add: resolveSubstitution_def)

lemma substitutionCredits_refrescados [simp]:
  "substitutionCredits p ps ss (refrescados p k rs) used = substitutionCredits p ps ss rs used"
  by (induction ss arbitrary: used) simp_all

lemma atualiza_atleta_fields [simp]:
  "atleta_id (atualiza_atleta a e) = atleta_id a"
  "posicao (atualiza_atleta a e) = posicao a"
  "clube (atualiza_atleta a e) = clube a"
  "is_capitao (atualiza_atleta a e) = is_capitao a"
  "apelido (atualiza_atleta a e) = apelido a"
  by (simp_all add: atualiza_atleta_def split: option.splits)

lemma atualiza_atleta_feed [simp]:
  "Atleta.pontos (atualiza_atleta a (isinstance_Atleta (get p (atleta_id a)))) = live_score p a"
  "truthy (entrou_em_campo (atualiza_atleta a (isinstance_Atleta (get p (atleta_id a))))) = entered_play p a"
  by (simp_all add: atualiza_atleta_def live_score_def entered_play_def truthy_def split: option.splits)

text \<open>The starter as one iteration leaves it.\<close>

lemma atleta_step_eq:
  "atleta_step p ps a st =
     (case jogo_finalizou (clube a) ps of
        Inl e \<Rightarrow>
          (Some e, atualiza_atleta a (isinstance_Atleta (get p (atleta_id a))),
           st\<lparr>time_jogados := time_jogados st + (if tem_entrada p a then 1 else 0)\<rparr>)
      | Inr jf \<Rightarrow>
          (None,
           (atualiza_atleta a (isinstance_Atleta (get p (atleta_id a))))\<lparr>Atleta.pontos := own_score p a\<rparr>,
           (case time_reservas st of
              None \<Rightarrow> st\<lparr>time_jogados := time_jogados st + (if tem_entrada p a then 1 else 0),
                         time_pontos := time_pontos st + own_score p a\<rparr>
            | Some rs \<Rightarrow>
                (snd (reservas_loop p (atualiza_atleta a (isinstance_Atleta (get p (atleta_id a)))) jf rs
                        (st\<lparr>time_jogados := time_jogados st + (if tem_entrada p a then 1 else 0)\<rparr>)))
                  \<lparr>time_reservas :=
                     Some (fst (reservas_loop p (atualiza_atleta a (isinstance_Atleta (get p (atleta_id a)))) jf rs
                        (st\<lparr>time_jogados := time_jogados st + (if tem_entrada p a then 1 else 0)\<rparr>))),
                   time_pontos :=
                     time_pontos (snd (reservas_loop p (atualiza_atleta a (isinstance_Atleta (get p (atleta_id a)))) jf rs
                        (st\<lparr>time_jogados := time_jogados st + (if tem_entrada p a then 1 else 0)\<rparr>)))
                     + own_score p a\<rparr>)))"
proof -
  have own: "(if truthy (is_capitao a)
              then (atualiza_atleta a e)\<lparr>Atleta.pontos := Atleta.pontos (atualiza_atleta a e) * 1.5\<rparr>
              else atualiza_atleta a e)
             = (atualiza_atleta a e)\<lparr>Atleta.pontos := own_score p a\<rparr>"
    if "e = isinstance_Atleta (get p (atleta_id a))" for e
    using that by (simp add: own_score_def)
  show ?thesis
    unfolding atleta_step_def teste_def Let_def
    by (cases "time_reservas st"; cases "jogo_finalizou (clube a) ps")
       (auto simp: own own_score_def tem_entrada_def case_prod_beta split: list.splits)
qed

section \<open>One starter, and the loop over the starters\<close>

lemma matchFinished_Inr: "jogo_finalizou c ps = Inr jf \<Longrightarrow> matchFinished c ps = jf"
  by (simp add: matchFinished_def)

lemma atleta_step_fst:
  "fst (atleta_step p ps a st) = None \<longleftrightarrow> (\<exists>jf. jogo_finalizou (clube a) ps = Inr jf)"
  by (cases "jogo_finalizou (clube a) ps") (simp_all add: atleta_step_eq)

lemma atleta_step_titular:
  "jogo_finalizou (clube a) ps = Inr jf \<Longrightarrow> fst (snd (atleta_step p ps a st)) = titular_apos p a"
  by (simp add: atleta_step_eq titular_apos_def)

lemma atleta_step_jogados:
  "jogo_finalizou (clube a) ps = Inr jf \<Longrightarrow>
   time_jogados (snd (snd (atleta_step p ps a st))) =
     time_jogados st + (if tem_entrada p a then 1 else 0)"
  by (simp add: atleta_step_eq split: option.splits)

lemma atleta_step_reservas:
  "jogo_finalizou (clube a) ps = Inr jf \<Longrightarrow>
   \<exists>k. time_reservas (snd (snd (atleta_step p ps a st))) =
        map_option (refrescados p k) (time_reservas st)"
proof (cases "time_reservas st")
  case None
  assume "jogo_finalizou (clube a) ps = Inr jf"
  with None show ?thesis by (simp add: atleta_step_eq)
next
  case (Some rs)
  assume jf: "jogo_finalizou (clube a) ps = Inr jf"
  obtain k where "fst (reservas_loop p (atualiza_atleta a (isinstance_Atleta (get p (atleta_id a)))) jf rs
        (st\<lparr>time_jogados := time_jogados st + (if tem_entrada p a then 1 else 0)\<rparr>)) = refrescados p k rs"
    using reservas_loop_refrescados by blast
  with Some jf show ?thesis by (auto simp: atleta_step_eq)
qed

lemma atleta_step_pontos:
  assumes "jogo_finalizou (clube a) ps = Inr jf"
  shows "time_pontos (snd (snd (atleta_step p ps a st))) =
           time_pontos st
           + fst (resolveSubstitution p a (lista_reservas (time_reservas st)) jf (set (reserva_usado st)))
           + own_score p a"
    and "set (reserva_usado (snd (snd (atleta_step p ps a st)))) =
           marca (snd (resolveSubstitution p a (lista_reservas (time_reservas st)) jf (set (reserva_usado st))))
             (set (reserva_usado st))"
proof -
  let ?a1 = "atualiza_atleta a (isinstance_Atleta (get p (atleta_id a)))"
  let ?st1 = "st\<lparr>time_jogados := time_jogados st + (if tem_entrada p a then 1 else 0)\<rparr>"
  let ?res = "resolveSubstitution p a (lista_reservas (time_reservas st)) jf (set (reserva_usado st))"
  have both: "time_pontos (snd (snd (atleta_step p ps a st))) = time_pontos st + fst ?res + own_score p a
      \<and> set (reserva_usado (snd (snd (atleta_step p ps a st)))) = marca (snd ?res) (set (reserva_usado st))"
  proof (cases "time_reservas st")
    case None
    then show ?thesis
      using assms
      by (simp add: atleta_step_eq lista_reservas_def resolveSubstitution_def marca_def)
  next
    case (Some rs)
    show ?thesis
    proof (cases "entered_play p a \<or> Posicao.nome (posicao a) \<in> set (reserva_usado st)")
      case True
      then have "snd (reservas_loop p ?a1 jf rs ?st1) = ?st1"
        by (intro reservas_loop_skip) simp
      with True Some assms show ?thesis
        by (auto simp: atleta_step_eq lista_reservas_def resolveSubstitution_def marca_def)
    next
      case False
      then have "\<not> truthy (entrou_em_campo ?a1)" "Posicao.nome (posicao ?a1) \<notin> set (reserva_usado ?st1)"
        by simp_all
      from reservas_loop_scan [OF this, of p jf rs] False Some assms show ?thesis
        by (auto simp: atleta_step_eq lista_reservas_def resolveSubstitution_def marca_def
                 split: option.splits)
    qed
  qed
  from both show "time_pontos (snd (snd (atleta_step p ps a st))) = time_pontos st + fst ?res + own_score p a"
    by blast
  from both show "set (reserva_usado (snd (snd (atleta_step p ps a st)))) = marca (snd ?res) (set (reserva_usado st))"
    by blast
qed

lemma atletas_loop_Cons_ok:
  "jogo_finalizou (clube a) ps = Inr jf \<Longrightarrow>
   atletas_loop p ps (a # as) st =
     (fst (atletas_loop p ps as (snd (snd (atleta_step p ps a st)))),
      titular_apos p a # fst (snd (atletas_loop p ps as (snd (snd (atleta_step p ps a st))))),
      snd (snd (atletas_loop p ps as (snd (snd (atleta_step p ps a st))))))"
  using atleta_step_fst [of p ps a st] atleta_step_titular [of a ps jf p st]
  by (cases "atleta_step p ps a st") (auto simp: case_prod_beta)

lemmas [simp del] = atletas_loop.simps(2)

lemma atletas_loop_Cons_err:
  "jogo_finalizou (clube a) ps = Inl e \<Longrightarrow> fst (atletas_loop p ps (a # as) st) = Some e"
  by (cases "atleta_step p ps a st") (auto simp: atleta_step_eq atletas_loop.simps(2))

lemma atletas_loop_fst_Cons:
  "fst (atletas_loop p ps (a # as) st) = None \<Longrightarrow>
   \<exists>jf. jogo_finalizou (clube a) ps = Inr jf
        \<and> fst (atletas_loop p ps as (snd (snd (atleta_step p ps a st)))) = None"
proof (cases "jogo_finalizou (clube a) ps")
  case (Inl e)
  assume "fst (atletas_loop p ps (a # as) st) = None"
  with atletas_loop_Cons_err [OF Inl, of p as st] show ?thesis by simp
next
  case (Inr jf)
  assume "fst (atletas_loop p ps (a # as) st) = None"
  with Inr show ?thesis by (simp add: atletas_loop_Cons_ok [OF Inr])
qed

lemma atletas_loop_resolvidos:
  "clubes_resolvidos as \<Longrightarrow> fst (atletas_loop p ps as st) = None"
proof (induction as arbitrary: st)
  case Nil
  show ?case by simp
next
  case (Cons a as)
  then have "clube a \<noteq> ClubeNone" "clubes_resolvidos as"
    by (simp_all add: clubes_resolvidos_def)
  then obtain jf where jf: "jogo_finalizou (clube a) ps = Inr jf"
    using jogo_finalizou_total by blast
  show ?case
    using Cons.IH [OF \<open>clubes_resolvidos as\<close>] by (simp add: atletas_loop_Cons_ok [OF jf])
qed

lemma atletas_loop_titulares:
  "fst (atletas_loop p ps as st) = None \<Longrightarrow>
   fst (snd (atletas_loop p ps as st)) = map (titular_apos p) as"
proof (induction as arbitrary: st)
  case Nil
  show ?case by simp
next
  case (Cons a as)
  from atletas_loop_fst_Cons [OF Cons.prems] obtain jf where
    jf: "jogo_finalizou (clube a) ps = Inr jf"
    and r: "fst (atletas_loop p ps as (snd (snd (atleta_step p ps a st)))) = None" by blast
  show ?case using Cons.IH [OF r] by (simp add: atletas_loop_Cons_ok [OF jf])
qed

lemma atletas_loop_jogados:
  "fst (atletas_loop p ps as st) = None \<Longrightarrow>
   time_jogados (snd (snd (atletas_loop p ps as st))) =
     time_jogados st + int (length (filter (tem_entrada p) as))"
proof (induction as arbitrary: st)
  case Nil
  show ?case by simp
next
  case (Cons a as)
  from atletas_loop_fst_Cons [OF Cons.prems] obtain jf where
    jf: "jogo_finalizou (clube a) ps = Inr jf"
    and r: "fst (atletas_loop p ps as (snd (snd (atleta_step p ps a st)))) = None" by blast
  show ?case using Cons.IH [OF r] atleta_step_jogados [OF jf, of p st]
    by (simp add: atletas_loop_Cons_ok [OF jf])
qed

lemma atletas_loop_reservas:
  "fst (atletas_loop p ps as st) = None \<Longrightarrow>
   \<exists>k. time_reservas (snd (snd (atletas_loop p ps as st))) =
        map_option (refrescados p k) (time_reservas st)"
proof (induction as arbitrary: st)
  case Nil
  have "time_reservas st = map_option (refrescados p 0) (time_reservas st)"
    by (cases "time_reservas st") simp_all
  then show ?case by auto
next
  case (Cons a as)
  from atletas_loop_fst_Cons [OF Cons.prems] obtain jf where
    jf: "jogo_finalizou (clube a) ps = Inr jf"
    and r: "fst (atletas_loop p ps as (snd (snd (atleta_step p ps a st)))) = None" by blast
  obtain k1 where k1: "time_reservas (snd (snd (atleta_step p ps a st))) =
        map_option (refrescados p k1) (time_reservas st)"
    using atleta_step_reservas [OF jf] by blast
  obtain k2 where k2: "time_reservas (snd (snd (atletas_loop p ps as (snd (snd (atleta_step p ps a st)))))) =
        map_option (refrescados p k2) (time_reservas (snd (snd (atleta_step p ps a st))))"
    using Cons.IH [OF r] by blast
  have "time_reservas (snd (snd (atletas_loop p ps (a # as) st))) =
        map_option (refrescados p (max k2 k1)) (time_reservas st)"
    using k1 k2
    by (cases "time_reservas st") (simp_all add: atletas_loop_Cons_ok [OF jf] refrescados_refrescados)
  then show ?case ..
qed

lemma lista_reservas_refrescados [simp]:
  "lista_reservas (map_option (refrescados p k) r) = refrescados p k (lista_reservas r)"
  by (cases r) (simp_all add: lista_reservas_def)

lemma atletas_loop_pontos:
  "fst (atletas_loop p ps as st) = None \<Longrightarrow>
   time_pontos (snd (snd (atletas_loop p ps as st))) =
     time_pontos st + sum_list (map (own_score p) as)
     + substitutionCredits p ps as (lista_reservas (time_reservas st)) (set (reserva_usado st))"
proof (induction as arbitrary: st)
  case Nil
  show ?case by simp
next
  case (Cons a as)
  from atletas_loop_fst_Cons [OF Cons.prems] obtain jf where
    jf: "jogo_finalizou (clube a) ps = Inr jf"
    and r: "fst (atletas_loop p ps as (snd (snd (atleta_step p ps a st)))) = None" by blast
  obtain k1 where k1: "time_reservas (snd (snd (atleta_step p ps a st))) =
        map_option (refrescados p k1) (time_reservas st)"
    using atleta_step_reservas [OF jf] by blast
  show ?case
    using Cons.IH [OF r] atleta_step_pontos [OF jf, of p st] k1 matchFinished_Inr [OF jf]
    by (simp add: atletas_loop_Cons_ok [OF jf] case_prod_beta)
qed

section \<open>The whole pass\<close>

lemma substitutionCredits_Nil [simp]: "substitutionCredits p ps ss [] used = 0"
  by (induction ss arbitrary: used) (simp_all add: resolveSubstitution_def marca_def)

lemma calculate_parcial_Returns:
  assumes "\<not> parciais_invalidos parciais" and "fst (atletas_loop parciais partidas (atletas t) (laco_inicial t)) = None"
  shows "calculate_parcial (ArgTime t) parciais partidas =
           Returns (ArgTime (grava t (map (titular_apos parciais) (atletas t))
                               (snd (snd (atletas_loop parciais partidas (atletas t) (laco_inicial t))))))"
  using assms atletas_loop_titulares [OF assms(2)]
  by (cases "atletas_loop parciais partidas (atletas t) (laco_inicial t)")
     (auto simp: calculate_parcial_def)

lemma laco_inicial_fields [simp]:
  "time_pontos (laco_inicial t) = 0" "time_jogados (laco_inicial t) = 0"
  "time_reservas (laco_inicial t) = reservas t" "reserva_usado (laco_inicial t) = []"
  "creditos (laco_inicial t) = []"
  by (simp_all add: laco_inicial_def)

text \<open>
  When every starter has a club or the empty club reference, and the feed passes the check,
  \<^verbatim>\<open>_calculate_parcial\<close> returns the same team with \<^verbatim>\<open>pontos\<close> equal to the sum over the
  starters, in stored order, of the live score looked up in the feed (0 if absent), times 1.5
  for the captain, plus the substitution credits that the rule of the specification awards;
  with \<^verbatim>\<open>jogados\<close> equal to the number of starters that have a live entry; with the starters
  updated from the feed; and with a prefix of the reserves refreshed. The other attributes are
  untouched.
\<close>

lemma calculate_parcial_pontos:
  assumes "\<not> parciais_invalidos parciais" and "clubes_resolvidos (atletas t)"
  shows "\<exists>k. calculate_parcial (ArgTime t) parciais partidas =
           Returns (ArgTime (t\<lparr>Time.pontos :=
                                 sum_list (map (own_score parciais) (atletas t))
                                 + substitutionCredits parciais partidas (atletas t)
                                     (lista_reservas (reservas t)) {},
                               jogados := Some (int (length (filter (tem_entrada parciais) (atletas t)))),
                               atletas := map (titular_apos parciais) (atletas t),
                               reservas := map_option (refrescados parciais k) (reservas t)\<rparr>))"
proof -
  let ?R = "atletas_loop parciais partidas (atletas t) (laco_inicial t)"
  have ok: "fst ?R = None"
    using assms(2) by (rule atletas_loop_resolvidos)
  obtain k where k: "time_reservas (snd (snd ?R)) = map_option (refrescados parciais k) (reservas t)"
    using atletas_loop_reservas [OF ok] by auto
  have "calculate_parcial (ArgTime t) parciais partidas =
           Returns (ArgTime (grava t (map (titular_apos parciais) (atletas t)) (snd (snd ?R))))"
    using assms(1) ok by (rule calculate_parcial_Returns)
  then show ?thesis
    using k atletas_loop_pontos [OF ok] atletas_loop_jogados [OF ok]
    by (intro exI [of _ k]) (simp add: grava_def)
qed

lemma ex_resolvidos: "clubes_resolvidos (atletas ex_time)"
  by (simp add: clubes_resolvidos_def ex_defs)

lemma calculate_parcial_pontos_ex:
  "\<not> parciais_invalidos ex_parciais \<and> clubes_resolvidos (atletas ex_time)
   \<and> sum_list (map (own_score ex_parciais) (atletas ex_time))
       + substitutionCredits ex_parciais [ex_partida] (atletas ex_time)
           (lista_reservas (reservas ex_time)) {} = 28.05
   \<and> int (length (filter (tem_entrada ex_parciais) (atletas ex_time))) = 2"
proof -
  from calculate_parcial_pontos [OF ex_valido ex_resolvidos, of "[ex_partida]"]
  obtain k where "Returns (ArgTime ex_resultado) =
           Returns (ArgTime (ex_time\<lparr>Time.pontos :=
                                 sum_list (map (own_score ex_parciais) (atletas ex_time))
                                 + substitutionCredits ex_parciais [ex_partida] (atletas ex_time)
                                     (lista_reservas (reservas ex_time)) {},
                               jogados := Some (int (length (filter (tem_entrada ex_parciais) (atletas ex_time)))),
                               atletas := map (titular_apos ex_parciais) (atletas ex_time),
                               reservas := map_option (refrescados ex_parciais k) (reservas ex_time)\<rparr>))"
    unfolding ex_calculate by blast
  then have eq: "ex_resultado = ex_time\<lparr>Time.pontos :=
                                 sum_list (map (own_score ex_parciais) (atletas ex_time))
                                 + substitutionCredits ex_parciais [ex_partida] (atletas ex_time)
                                     (lista_reservas (reservas ex_time)) {},
                               jogados := Some (int (length (filter (tem_entrada ex_parciais) (atletas ex_time)))),
                               atletas := map (titular_apos ex_parciais) (atletas ex_time),
                               reservas := map_option (refrescados ex_parciais k) (reservas ex_time)\<rparr>"
    by simp
  have "Time.pontos ex_resultado = sum_list (map (own_score ex_parciais) (atletas ex_time))
                                 + substitutionCredits ex_parciais [ex_partida] (atletas ex_time)
                                     (lista_reservas (reservas ex_time)) {}"
    and "jogados ex_resultado = Some (int (length (filter (tem_entrada ex_parciais) (atletas ex_time))))"
    using arg_cong [OF eq, of Time.pontos] arg_cong [OF eq, of jogados] by simp_all
  then show ?thesis
    using ex_valido ex_resolvidos by (simp add: ex_resultado_def)
qed


text \<open>
  C1. The claim is for every team, and it fails on a team with a starter whose club is
  \<^verbatim>\<open>None\<close>. On the team \<open>ex_time_sem_clube\<close> the goalkeeper is scored (5 points); in the
  captain's iteration the starter's fields and \<^verbatim>\<open>time.jogados\<close> are written
  and then the match loop raises \<^verbatim>\<open>AttributeError\<close> on \<^verbatim>\<open>atleta.clube.nome\<close>. Nothing is
  returned, \<^verbatim>\<open>time.pontos\<close> is left at 5, the captain's score is not multiplied, the third
  starter is not reached and only the first reserve has been refreshed. The specification
  gives 20 points for this team (5, 1.5 times 8, and the credit of 3 for the third starter) and
  2 starters played.
\<close>

theorem calculate_parcial_pontos_sem_clube:
  "calculate_parcial (ArgTime ex_time_sem_clube) ex_parciais [ex_partida] =
     Raises AttributeError
       (ArgTime (ex_time_sem_clube
          \<lparr>Time.pontos := 5, jogados := Some 2,
           atletas :=
             [(ex_atleta 2 ex_goleiro 5 (Some True) (Some False))\<lparr>Atleta.nome := Some ''Jogador''\<rparr>,
              (ex_atleta 1 ex_atacante 8 (Some False) (Some True))
                \<lparr>Atleta.nome := Some ''Jogador'', clube := ClubeNone\<rparr>,
              ex_ausente],
           reservas :=
             Some [ex_atleta 10 ex_atacante 0.05 None (Some False),
                   ex_atleta 11 ex_atacante 7 None (Some False),
                   ex_atleta 12 ex_goleiro 7 None (Some False)]\<rparr>))
   \<and> sum_list (map (own_score ex_parciais) (atletas ex_time_sem_clube))
       + substitutionCredits ex_parciais [ex_partida] (atletas ex_time_sem_clube)
           (lista_reservas (reservas ex_time_sem_clube)) {} = 20
   \<and> int (length (filter (tem_entrada ex_parciais) (atletas ex_time_sem_clube))) = 2"
proof -
  have "atletas_loop ex_parciais [ex_partida] (atletas ex_time_sem_clube) (laco_inicial ex_time_sem_clube) =
     (Some AttributeError,
      [(ex_atleta 2 ex_goleiro 5 (Some True) (Some False))\<lparr>Atleta.nome := Some ''Jogador''\<rparr>,
       (ex_atleta 1 ex_atacante 8 (Some False) (Some True))
         \<lparr>Atleta.nome := Some ''Jogador'', clube := ClubeNone\<rparr>,
       ex_ausente],
      \<lparr>time_pontos = 5, time_jogados = 2,
       time_reservas = Some [ex_atleta 10 ex_atacante 0.05 None (Some False),
                   ex_atleta 11 ex_atacante 7 None (Some False),
                   ex_atleta 12 ex_goleiro 7 None (Some False)],
       reserva_usado = [], creditos = []\<rparr>)"
    by (simp add: sem_clube_defs ex_defs run_defs atletas_loop.simps(2) reservas_loop.simps(2))
  then have "calculate_parcial (ArgTime ex_time_sem_clube) ex_parciais [ex_partida] =
     Raises AttributeError
       (ArgTime (ex_time_sem_clube
          \<lparr>Time.pontos := 5, jogados := Some 2,
           atletas :=
             [(ex_atleta 2 ex_goleiro 5 (Some True) (Some False))\<lparr>Atleta.nome := Some ''Jogador''\<rparr>,
              (ex_atleta 1 ex_atacante 8 (Some False) (Some True))
                \<lparr>Atleta.nome := Some ''Jogador'', clube := ClubeNone\<rparr>,
              ex_ausente],
           reservas :=
             Some [ex_atleta 10 ex_atacante 0.05 None (Some False),
                   ex_atleta 11 ex_atacante 7 None (Some False),
                   ex_atleta 12 ex_goleiro 7 None (Some False)]\<rparr>))"
    by (simp add: calculate_parcial_def ex_valido grava_def)
  moreover have "sum_list (map (own_score ex_parciais) (atletas ex_time_sem_clube))
       + substitutionCredits ex_parciais [ex_partida] (atletas ex_time_sem_clube)
           (lista_reservas (reservas ex_time_sem_clube)) {} = 20"
    by (simp add: sem_clube_defs ex_defs own_score_def live_score_def get_def truthy_def
          resolveSubstitution_def entered_play_def matchFinished_def jogo_finalizou_def
          encerrada_def marca_def lista_reservas_def)
  moreover have "int (length (filter (tem_entrada ex_parciais) (atletas ex_time_sem_clube))) = 2"
    by (simp add: sem_clube_defs ex_defs tem_entrada_def get_def)
  ultimately show ?thesis by blast
qed

text \<open>
  When the reserve list is \<^verbatim>\<open>None\<close> or empty, every starter has a club or the empty club
  reference and the feed passes the check, the pass awards no substitution credit: \<^verbatim>\<open>pontos\<close>
  is exactly the sum over the starters of their own live score, times 1.5 for the captain, and
  the reserve attribute is untouched.
\<close>

lemma calculate_parcial_sem_reservas:
  assumes "reservas t = None \<or> reservas t = Some []"
    and "\<not> parciais_invalidos parciais" and "clubes_resolvidos (atletas t)"
  shows "calculate_parcial (ArgTime t) parciais partidas =
           Returns (ArgTime (t\<lparr>Time.pontos := sum_list (map (own_score parciais) (atletas t)),
                               jogados := Some (int (length (filter (tem_entrada parciais) (atletas t)))),
                               atletas := map (titular_apos parciais) (atletas t)\<rparr>))"
proof -
  let ?R = "atletas_loop parciais partidas (atletas t) (laco_inicial t)"
  have ok: "fst ?R = None"
    using assms(3) by (rule atletas_loop_resolvidos)
  obtain k where k: "time_reservas (snd (snd ?R)) = map_option (refrescados parciais k) (reservas t)"
    using atletas_loop_reservas [OF ok] by auto
  have res: "time_reservas (snd (snd ?R)) = reservas t"
    using assms(1) k by auto
  have cred: "substitutionCredits parciais partidas (atletas t) (lista_reservas (reservas t)) {} = 0"
    using assms(1) by (auto simp: lista_reservas_def)
  have "calculate_parcial (ArgTime t) parciais partidas =
           Returns (ArgTime (grava t (map (titular_apos parciais) (atletas t)) (snd (snd ?R))))"
    using assms(2) ok by (rule calculate_parcial_Returns)
  then show ?thesis
    using res cred atletas_loop_pontos [OF ok] atletas_loop_jogados [OF ok]
    by (simp add: grava_def)
qed

lemma calculate_parcial_sem_reservas_ex:
  "calculate_parcial (ArgTime (ex_time\<lparr>reservas := None\<rparr>)) ex_parciais [ex_partida] =
     Returns (ArgTime (ex_time\<lparr>reservas := None, Time.pontos := 17, jogados := Some 2,
                        atletas := atletas ex_resultado\<rparr>))"
proof -
  have a: "reservas (ex_time\<lparr>reservas := None\<rparr>) = None \<or> reservas (ex_time\<lparr>reservas := None\<rparr>) = Some []"
    by simp
  have b: "clubes_resolvidos (atletas (ex_time\<lparr>reservas := None\<rparr>))"
    using ex_resolvidos by simp
  show ?thesis
    using calculate_parcial_sem_reservas [OF a ex_valido b, of "[ex_partida]"]
    by (simp add: ex_defs own_score_def live_score_def tem_entrada_def titular_apos_def
          atualiza_atleta_def get_def truthy_def)
qed

text \<open>
  C10. The claim is for every team without reserves, and it fails on such a team with a
  starter whose club is \<^verbatim>\<open>None\<close>: on the team \<open>ex_time_sem_clube\<close> with the reserve list
  \<^verbatim>\<open>None\<close>, the pass raises \<^verbatim>\<open>AttributeError\<close> in the captain's iteration and
  leaves \<^verbatim>\<open>time.pontos\<close> at 5, where the sum over the starters of their own scores is 17.
\<close>

theorem calculate_parcial_sem_reservas_sem_clube:
  "reservas (ex_time_sem_clube\<lparr>reservas := None\<rparr>) = None
   \<and> calculate_parcial (ArgTime (ex_time_sem_clube\<lparr>reservas := None\<rparr>)) ex_parciais [ex_partida] =
       Raises AttributeError
         (ArgTime (ex_time_sem_clube
            \<lparr>reservas := None, Time.pontos := 5, jogados := Some 2,
             atletas :=
               [(ex_atleta 2 ex_goleiro 5 (Some True) (Some False))\<lparr>Atleta.nome := Some ''Jogador''\<rparr>,
                (ex_atleta 1 ex_atacante 8 (Some False) (Some True))
                  \<lparr>Atleta.nome := Some ''Jogador'', clube := ClubeNone\<rparr>,
                ex_ausente]\<rparr>))
   \<and> sum_list (map (own_score ex_parciais) (atletas (ex_time_sem_clube\<lparr>reservas := None\<rparr>))) = 17"
proof -
  have "atletas_loop ex_parciais [ex_partida] (atletas (ex_time_sem_clube\<lparr>reservas := None\<rparr>))
          (laco_inicial (ex_time_sem_clube\<lparr>reservas := None\<rparr>)) =
     (Some AttributeError,
      [(ex_atleta 2 ex_goleiro 5 (Some True) (Some False))\<lparr>Atleta.nome := Some ''Jogador''\<rparr>,
       (ex_atleta 1 ex_atacante 8 (Some False) (Some True))
         \<lparr>Atleta.nome := Some ''Jogador'', clube := ClubeNone\<rparr>,
       ex_ausente],
      \<lparr>time_pontos = 5, time_jogados = 2, time_reservas = None,
       reserva_usado = [], creditos = []\<rparr>)"
    by (simp add: sem_clube_defs ex_defs run_defs atletas_loop.simps(2))
  then have "calculate_parcial (ArgTime (ex_time_sem_clube\<lparr>reservas := None\<rparr>)) ex_parciais [ex_partida] =
       Raises AttributeError
         (ArgTime (ex_time_sem_clube
            \<lparr>reservas := None, Time.pontos := 5, jogados := Some 2,
             atletas :=
               [(ex_atleta 2 ex_goleiro 5 (Some True) (Some False))\<lparr>Atleta.nome := Some ''Jogador''\<rparr>,
                (ex_atleta 1 ex_atacante 8 (Some False) (Some True))
                  \<lparr>Atleta.nome := Some ''Jogador'', clube := ClubeNone\<rparr>,
                ex_ausente]\<rparr>))"
    by (simp add: calculate_parcial_def ex_valido grava_def)
  moreover have "sum_list (map (own_score ex_parciais) (atletas (ex_time_sem_clube\<lparr>reservas := None\<rparr>))) = 17"
    by (simp add: sem_clube_defs ex_defs own_score_def live_score_def get_def truthy_def)
  ultimately show ?thesis by simp
qed

section \<open>Absent starters, the captain, and the refresh of the reserves\<close>

lemma valido_get:
  "\<not> parciais_invalidos p \<Longrightarrow> tem_entrada p a \<longleftrightarrow> get p (atleta_id a) \<noteq> None"
proof -
  assume v: "\<not> parciais_invalidos p"
  show ?thesis
  proof (cases "get p (atleta_id a)")
    case None
    then show ?thesis by (simp add: tem_entrada_def)
  next
    case (Some x)
    with v have "x \<noteq> ValorOutro"
      by (auto simp: parciais_invalidos_iff get_def)
    with Some show ?thesis by (cases x) (simp_all add: tem_entrada_def)
  qed
qed

lemma own_score_ausente: "\<not> tem_entrada p a \<Longrightarrow> own_score p a = 0"
  by (simp add: own_score_def live_score_def tem_entrada_def)

lemma sum_list_filter_zero:
  "(\<And>x. x \<in> set xs \<Longrightarrow> \<not> P x \<Longrightarrow> f x = (0::real)) \<Longrightarrow>
   sum_list (map f (filter P xs)) = sum_list (map f xs)"
  by (induction xs) auto

lemma titular_apos_ausente:
  "get p (atleta_id a) = None \<Longrightarrow>
   Atleta.pontos (titular_apos p a) = 0 \<and> scout (titular_apos p a) = ScoutDict []
   \<and> entrou_em_campo (titular_apos p a) = Some False \<and> Atleta.nome (titular_apos p a) = Some ''''"
  by (simp add: titular_apos_def atualiza_atleta_def own_score_def live_score_def)

text \<open>
  The totals of a pass that returns: when every starter has a club or the empty club
  reference and the feed passes the check, every starter whose id is absent from the feed ends
  with live score 0, empty scout, entered-play flag false and empty name; \<^verbatim>\<open>pontos\<close> is the sum
  of the own scores of the starters that have an entry, plus the substitution credits; and
  \<^verbatim>\<open>jogados\<close> counts only the starters that have an entry.
\<close>

lemma calculate_parcial_ausente:
  assumes "\<not> parciais_invalidos parciais" and "clubes_resolvidos (atletas t)"
  shows "\<exists>t'. calculate_parcial (ArgTime t) parciais partidas = Returns (ArgTime t')
     \<and> length (atletas t') = length (atletas t)
     \<and> (\<forall>i<length (atletas t). get parciais (atleta_id (atletas t ! i)) = None \<longrightarrow>
           Atleta.pontos (atletas t' ! i) = 0 \<and> scout (atletas t' ! i) = ScoutDict []
           \<and> entrou_em_campo (atletas t' ! i) = Some False \<and> Atleta.nome (atletas t' ! i) = Some '''')
     \<and> Time.pontos t' =
          sum_list (map (own_score parciais)
                      (filter (\<lambda>a. get parciais (atleta_id a) \<noteq> None) (atletas t)))
          + substitutionCredits parciais partidas (atletas t) (lista_reservas (reservas t)) {}
     \<and> jogados t' =
          Some (int (length (filter (\<lambda>a. get parciais (atleta_id a) \<noteq> None) (atletas t))))"
proof -
  let ?R = "atletas_loop parciais partidas (atletas t) (laco_inicial t)"
  let ?t' = "grava t (map (titular_apos parciais) (atletas t)) (snd (snd ?R))"
  have ok: "fst ?R = None"
    using assms(2) by (rule atletas_loop_resolvidos)
  have ret: "calculate_parcial (ArgTime t) parciais partidas = Returns (ArgTime ?t')"
    using assms(1) ok by (rule calculate_parcial_Returns)
  have filt: "filter (\<lambda>a. get parciais (atleta_id a) \<noteq> None) (atletas t)
              = filter (tem_entrada parciais) (atletas t)"
    using valido_get [OF assms(1)] by (intro filter_cong) auto
  have len: "length (atletas ?t') = length (atletas t)"
    by (simp add: grava_def)
  have campos: "\<forall>i<length (atletas t). get parciais (atleta_id (atletas t ! i)) = None \<longrightarrow>
           Atleta.pontos (atletas ?t' ! i) = 0 \<and> scout (atletas ?t' ! i) = ScoutDict []
           \<and> entrou_em_campo (atletas ?t' ! i) = Some False \<and> Atleta.nome (atletas ?t' ! i) = Some ''''"
    using titular_apos_ausente by (simp add: grava_def)
  have soma: "sum_list (map (own_score parciais) (filter (tem_entrada parciais) (atletas t)))
              = sum_list (map (own_score parciais) (atletas t))"
    by (rule sum_list_filter_zero) (rule own_score_ausente)
  have pts: "Time.pontos ?t' =
          sum_list (map (own_score parciais) (filter (\<lambda>a. get parciais (atleta_id a) \<noteq> None) (atletas t)))
          + substitutionCredits parciais partidas (atletas t) (lista_reservas (reservas t)) {}"
    unfolding filt soma using atletas_loop_pontos [OF ok] by (simp add: grava_def)
  have jog: "jogados ?t' =
          Some (int (length (filter (\<lambda>a. get parciais (atleta_id a) \<noteq> None) (atletas t))))"
    unfolding filt using atletas_loop_jogados [OF ok] by (simp add: grava_def)
  from ret len campos pts jog show ?thesis by blast
qed

lemma calculate_parcial_ausente_ex:
  "get ex_parciais (atleta_id (atletas ex_time ! 2)) = None
   \<and> Atleta.pontos (atletas ex_resultado ! 2) = 0 \<and> scout (atletas ex_resultado ! 2) = ScoutDict []
   \<and> entrou_em_campo (atletas ex_resultado ! 2) = Some False
   \<and> Atleta.nome (atletas ex_resultado ! 2) = Some ''''
   \<and> Time.pontos ex_resultado =
          sum_list (map (own_score ex_parciais)
                      (filter (\<lambda>a. get ex_parciais (atleta_id a) \<noteq> None) (atletas ex_time)))
          + substitutionCredits ex_parciais [ex_partida] (atletas ex_time)
              (lista_reservas (reservas ex_time)) {}
   \<and> jogados ex_resultado = Some 2"
proof -
  have g: "get ex_parciais (atleta_id (atletas ex_time ! 2)) = None"
    by (simp add: ex_defs get_def)
  have n: "int (length (filter (\<lambda>a. get ex_parciais (atleta_id a) \<noteq> None) (atletas ex_time))) = 2"
    by (simp add: ex_defs get_def)
  from calculate_parcial_ausente [OF ex_valido ex_resolvidos, of "[ex_partida]"] g n
  show ?thesis
    unfolding ex_calculate by (auto simp: ex_time_def)
qed


lemma atleta_step_creditos:
  assumes "jogo_finalizou (clube a) ps = Inr jf"
  shows "\<exists>new. creditos (snd (snd (atleta_step p ps a st))) = creditos st @ new
     \<and> time_pontos (snd (snd (atleta_step p ps a st))) =
         time_pontos st + sum_list (map cr_pontos new) + own_score p a
     \<and> (\<forall>c\<in>set new. cr_posicao c = Posicao.nome (posicao a)
            \<and> (\<exists>r\<in>set (lista_reservas (time_reservas st)).
                  cr_reserva c = atleta_id r \<and> cr_pontos c = live_score p r))"
proof (cases "time_reservas st")
  case None
  with assms have "creditos (snd (snd (atleta_step p ps a st))) = creditos st @ []
     \<and> time_pontos (snd (snd (atleta_step p ps a st))) =
         time_pontos st + sum_list (map cr_pontos []) + own_score p a"
    by (simp add: atleta_step_eq)
  then show ?thesis by (intro exI [of _ "[]"]) simp
next
  case (Some rs)
  let ?a1 = "atualiza_atleta a (isinstance_Atleta (get p (atleta_id a)))"
  let ?st1 = "st\<lparr>time_jogados := time_jogados st + (if tem_entrada p a then 1 else 0)\<rparr>"
  obtain new where new: "creditos (snd (reservas_loop p ?a1 jf rs ?st1)) = creditos ?st1 @ new"
     "time_pontos (snd (reservas_loop p ?a1 jf rs ?st1)) = time_pontos ?st1 + sum_list (map cr_pontos new)"
     "\<forall>c\<in>set new. cr_posicao c = Posicao.nome (posicao ?a1)
            \<and> (\<exists>r\<in>set rs. cr_reserva c = atleta_id r \<and> cr_pontos c = live_score p r)"
    using reservas_loop_creditos [of p ?a1 jf rs ?st1] by blast
  have "creditos (snd (snd (atleta_step p ps a st))) = creditos st @ new
     \<and> time_pontos (snd (snd (atleta_step p ps a st))) =
         time_pontos st + sum_list (map cr_pontos new) + own_score p a
     \<and> (\<forall>c\<in>set new. cr_posicao c = Posicao.nome (posicao a)
            \<and> (\<exists>r\<in>set (lista_reservas (time_reservas st)).
                  cr_reserva c = atleta_id r \<and> cr_pontos c = live_score p r))"
    using new Some assms by (simp add: atleta_step_eq lista_reservas_def)
  then show ?thesis ..
qed




text \<open>
  In the iteration of a captain whose feed entry has live score \<open>p\<close> and whose club is a club
  or the empty club reference, the starter's stored score becomes \<open>1.5 * p\<close> and
  \<^verbatim>\<open>time.pontos\<close> grows by the credits of this iteration plus exactly \<open>1.5 * p\<close>, whether or not
  a credit was made. Every credit of the iteration is the unmultiplied live score of a
  reserve: the factor 1.5 reaches the starter's own score only.
\<close>

lemma atleta_step_capitao:
  assumes "truthy (is_capitao atleta)"
    and "get parciais (atleta_id atleta) = Some (ValorAtleta e)"
    and "clube atleta \<noteq> ClubeNone"
  shows "\<exists>new. fst (atleta_step parciais partidas atleta st) = None
     \<and> Atleta.pontos (fst (snd (atleta_step parciais partidas atleta st))) = 1.5 * Atleta.pontos e
     \<and> creditos (snd (snd (atleta_step parciais partidas atleta st))) = creditos st @ new
     \<and> time_pontos (snd (snd (atleta_step parciais partidas atleta st))) =
         time_pontos st + sum_list (map cr_pontos new) + 1.5 * Atleta.pontos e
     \<and> (\<forall>c\<in>set new. \<exists>r\<in>set (lista_reservas (time_reservas st)).
            cr_reserva c = atleta_id r \<and> cr_pontos c = live_score parciais r)"
proof -
  obtain jf where jf: "jogo_finalizou (clube atleta) partidas = Inr jf"
    using jogo_finalizou_total [OF assms(3)] by blast
  have own: "own_score parciais atleta = 1.5 * Atleta.pontos e"
    using assms(1,2) by (simp add: own_score_def live_score_def)
  obtain new where new: "creditos (snd (snd (atleta_step parciais partidas atleta st))) = creditos st @ new"
     "time_pontos (snd (snd (atleta_step parciais partidas atleta st))) =
         time_pontos st + sum_list (map cr_pontos new) + own_score parciais atleta"
     "\<forall>c\<in>set new. cr_posicao c = Posicao.nome (posicao atleta)
            \<and> (\<exists>r\<in>set (lista_reservas (time_reservas st)).
                  cr_reserva c = atleta_id r \<and> cr_pontos c = live_score parciais r)"
    using atleta_step_creditos [OF jf] by blast
  have "fst (atleta_step parciais partidas atleta st) = None"
    using jf by (simp add: atleta_step_fst)
  moreover have "Atleta.pontos (fst (snd (atleta_step parciais partidas atleta st))) = 1.5 * Atleta.pontos e"
    using own by (simp add: atleta_step_titular [OF jf] titular_apos_def)
  ultimately show ?thesis
    using new own by (intro exI [of _ new]) auto
qed

lemma atleta_step_capitao_ex:
  "Atleta.pontos (fst (snd (atleta_step ex_parciais [ex_partida] ex_capitao (laco_inicial ex_time)))) = 12
   \<and> time_pontos (snd (snd (atleta_step ex_parciais [ex_partida] ex_capitao (laco_inicial ex_time))))
       = 0 + (0.05 + 4 + 4) + 1.5 * 8
   \<and> map cr_pontos (creditos (snd (snd (atleta_step ex_parciais [ex_partida] ex_capitao (laco_inicial ex_time)))))
       = [0.05, 4, 4]"
proof -
  have a: "truthy (is_capitao ex_capitao)"
    by (simp add: ex_defs truthy_def)
  have b: "get ex_parciais (atleta_id ex_capitao) = Some (ValorAtleta (ex_atleta 1 ex_atacante 8 (Some False) None))"
    by (simp add: ex_defs get_def)
  have c: "clube ex_capitao \<noteq> ClubeNone"
    by (simp add: ex_defs)
  have d: "creditos (snd (snd (atleta_step ex_parciais [ex_partida] ex_capitao (laco_inicial ex_time))))
           = take 3 ex_creditos"
    by (simp add: ex_defs run_defs reservas_loop.simps(2))
  obtain new where
    "Atleta.pontos (fst (snd (atleta_step ex_parciais [ex_partida] ex_capitao (laco_inicial ex_time))))
       = 1.5 * Atleta.pontos (ex_atleta 1 ex_atacante 8 (Some False) None)"
    "creditos (snd (snd (atleta_step ex_parciais [ex_partida] ex_capitao (laco_inicial ex_time))))
       = creditos (laco_inicial ex_time) @ new"
    "time_pontos (snd (snd (atleta_step ex_parciais [ex_partida] ex_capitao (laco_inicial ex_time))))
       = time_pontos (laco_inicial ex_time) + sum_list (map cr_pontos new)
         + 1.5 * Atleta.pontos (ex_atleta 1 ex_atacante 8 (Some False) None)"
    using atleta_step_capitao [OF a b c, of "[ex_partida]" "laco_inicial ex_time"] by blast
  then show ?thesis
    unfolding d by (auto simp: ex_creditos_def ex_atleta_def)
qed

text \<open>
  C5. The claim is for every captain with a live score in the feed, and it fails for a captain
  whose club is \<^verbatim>\<open>None\<close> when the round has a match: the iteration raises \<^verbatim>\<open>AttributeError\<close> in
  the match loop, before the multiplication and before the addition to \<^verbatim>\<open>time.pontos\<close>. The
  captain has live score 8 in the feed; the stored score stays 8 and \<^verbatim>\<open>time.pontos\<close> stays 0,
  where the claim gives a contribution of 12. A team with this captain alone ends with
  \<^verbatim>\<open>pontos\<close> 0.
\<close>

theorem atleta_step_capitao_sem_clube:
  "truthy (is_capitao ex_capitao_sem_clube) \<and> live_score ex_parciais ex_capitao_sem_clube = 8
   \<and> atleta_step ex_parciais [ex_partida] ex_capitao_sem_clube (laco_inicial ex_time) =
       (Some AttributeError,
        (ex_atleta 1 ex_atacante 8 (Some False) (Some True))
          \<lparr>Atleta.nome := Some ''Jogador'', clube := ClubeNone\<rparr>,
        (laco_inicial ex_time)\<lparr>time_jogados := 1\<rparr>)
   \<and> calculate_parcial (ArgTime (ex_time\<lparr>atletas := [ex_capitao_sem_clube]\<rparr>)) ex_parciais [ex_partida] =
       Raises AttributeError
         (ArgTime (ex_time
            \<lparr>Time.pontos := 0, jogados := Some 1,
             atletas := [(ex_atleta 1 ex_atacante 8 (Some False) (Some True))
                           \<lparr>Atleta.nome := Some ''Jogador'', clube := ClubeNone\<rparr>]\<rparr>))"
proof -
  have a: "truthy (is_capitao ex_capitao_sem_clube) \<and> live_score ex_parciais ex_capitao_sem_clube = 8"
    by (simp add: sem_clube_defs ex_defs live_score_def get_def truthy_def)
  have b: "atleta_step ex_parciais [ex_partida] ex_capitao_sem_clube (laco_inicial ex_time) =
       (Some AttributeError,
        (ex_atleta 1 ex_atacante 8 (Some False) (Some True))
          \<lparr>Atleta.nome := Some ''Jogador'', clube := ClubeNone\<rparr>,
        (laco_inicial ex_time)\<lparr>time_jogados := 1\<rparr>)"
    by (simp add: sem_clube_defs ex_defs run_defs)
  have "atletas_loop ex_parciais [ex_partida] [ex_capitao_sem_clube]
          (laco_inicial (ex_time\<lparr>atletas := [ex_capitao_sem_clube]\<rparr>)) =
     (Some AttributeError,
      [(ex_atleta 1 ex_atacante 8 (Some False) (Some True))
         \<lparr>Atleta.nome := Some ''Jogador'', clube := ClubeNone\<rparr>],
      \<lparr>time_pontos = 0, time_jogados = 1, time_reservas = Some ex_reservas,
       reserva_usado = [], creditos = []\<rparr>)"
    by (simp add: sem_clube_defs ex_defs run_defs atletas_loop.simps(2))
  then have c: "calculate_parcial (ArgTime (ex_time\<lparr>atletas := [ex_capitao_sem_clube]\<rparr>)) ex_parciais [ex_partida] =
       Raises AttributeError
         (ArgTime (ex_time
            \<lparr>Time.pontos := 0, jogados := Some 1,
             atletas := [(ex_atleta 1 ex_atacante 8 (Some False) (Some True))
                           \<lparr>Atleta.nome := Some ''Jogador'', clube := ClubeNone\<rparr>]\<rparr>))"
    by (simp add: calculate_parcial_def ex_valido grava_def) (simp add: ex_defs)
  from a b c show ?thesis by blast
qed




section \<open>Substitutions per position\<close>

lemma atletas_loop_snd_Cons:
  "snd (snd (atletas_loop p ps (a # as) st)) =
     (case jogo_finalizou (clube a) ps of
        Inl e \<Rightarrow> snd (snd (atleta_step p ps a st))
      | Inr jf \<Rightarrow> snd (snd (atletas_loop p ps as (snd (snd (atleta_step p ps a st))))))"
proof (cases "jogo_finalizou (clube a) ps")
  case (Inl e)
  then show ?thesis
    by (cases "atleta_step p ps a st") (auto simp: atleta_step_eq atletas_loop.simps(2))
next
  case (Inr jf)
  then show ?thesis by (simp add: atletas_loop_Cons_ok [OF Inr])
qed

lemma atleta_step_inv:
  assumes "reserva_usado st = map cr_posicao (substituicoes (creditos st))"
    and "posicao_fechada (creditos st)"
  shows "reserva_usado (snd (snd (atleta_step p ps a st))) =
           map cr_posicao (substituicoes (creditos (snd (snd (atleta_step p ps a st)))))
         \<and> posicao_fechada (creditos (snd (snd (atleta_step p ps a st))))"
proof (cases "jogo_finalizou (clube a) ps")
  case (Inl e)
  with assms show ?thesis by (simp add: atleta_step_eq)
next
  case (Inr jf)
  show ?thesis
  proof (cases "time_reservas st")
    case None
    with Inr assms show ?thesis by (simp add: atleta_step_eq)
  next
    case (Some rs)
    let ?a1 = "atualiza_atleta a (isinstance_Atleta (get p (atleta_id a)))"
    let ?st1 = "st\<lparr>time_jogados := time_jogados st + (if tem_entrada p a then 1 else 0)\<rparr>"
    have "reserva_usado ?st1 = map cr_posicao (substituicoes (creditos ?st1))"
         "posicao_fechada (creditos ?st1)"
      using assms by simp_all
    from reservas_loop_inv [OF this, of p ?a1 jf rs] Some Inr show ?thesis
      by (simp add: atleta_step_eq)
  qed
qed

lemma atletas_loop_inv:
  "reserva_usado st = map cr_posicao (substituicoes (creditos st)) \<Longrightarrow>
   posicao_fechada (creditos st) \<Longrightarrow>
   reserva_usado (snd (snd (atletas_loop p ps as st))) =
     map cr_posicao (substituicoes (creditos (snd (snd (atletas_loop p ps as st)))))
   \<and> posicao_fechada (creditos (snd (snd (atletas_loop p ps as st))))"
proof (induction as arbitrary: st)
  case Nil
  then show ?case by simp
next
  case (Cons a as)
  note step = atleta_step_inv [OF Cons.prems, of p ps a]
  show ?case
  proof (cases "jogo_finalizou (clube a) ps")
    case (Inl e)
    with step show ?thesis by (simp add: atletas_loop_snd_Cons)
  next
    case (Inr jf)
    from Cons.IH [of "snd (snd (atleta_step p ps a st))"] step Inr show ?thesis
      by (simp add: atletas_loop_snd_Cons)
  qed
qed

lemma posicao_fechada_distinct:
  "posicao_fechada cs \<Longrightarrow> distinct (map cr_posicao (substituicoes cs))"
  by (induction cs) (auto simp: substituicoes_def list_all_iff)

lemma reservas_loop_log:
  "creditos (snd (reservas_loop p a jf rs st)) =
     creditos st @
       (if truthy (entrou_em_campo a) \<or> Posicao.nome (posicao a) \<in> set (reserva_usado st) \<or> \<not> jf
        then []
        else creditos_varredura p (truthy (is_capitao a)) (Posicao.nome (posicao a)) rs)"
proof (induction rs arbitrary: st)
  case Nil
  show ?case by simp
next
  case (Cons r rs)
  show ?case
    using Cons.IH [of st] Cons.IH [of "credita RamoCapitao a (refresca p r) st"]
    by (auto simp: reservas_loop_Cons)
qed

lemma atleta_step_log:
  "creditos (snd (snd (atleta_step p ps a st))) =
     creditos st @ creditos_titular p a (lista_reservas (time_reservas st))
                     (matchFinished (clube a) ps) (set (reserva_usado st))"
proof (cases "jogo_finalizou (clube a) ps")
  case (Inl e)
  then show ?thesis
    by (simp add: atleta_step_eq matchFinished_def creditos_titular_def)
next
  case (Inr jf)
  show ?thesis
  proof (cases "time_reservas st")
    case None
    with Inr show ?thesis
      by (simp add: atleta_step_eq matchFinished_def creditos_titular_def lista_reservas_def)
  next
    case (Some rs)
    with Inr show ?thesis
      using reservas_loop_log [of p "atualiza_atleta a (isinstance_Atleta (get p (atleta_id a)))" jf rs
         "st\<lparr>time_jogados := time_jogados st + (if tem_entrada p a then 1 else 0)\<rparr>"]
      by (cases rs) (auto simp: atleta_step_eq matchFinished_def creditos_titular_def lista_reservas_def)
  qed
qed

text \<open>
  C2, as stated, fails: on the small round the captain's position receives the points of two
  reserves (10 and 11), the second one twice, because the captain statement credits every
  reserve of the position that the scan passes.
\<close>

theorem atletas_loop_uma_reserva_counterexample:
  "creditos (snd (snd (atletas_loop ex_parciais [ex_partida] (atletas ex_time) (laco_inicial ex_time))))
     = ex_creditos
   \<and> \<not> uma_reserva_por_posicao ex_creditos"
  by (simp add: ex_laco) (simp add: uma_reserva_por_posicao_def ex_creditos_def)

text \<open>
  C2, amended. In every pass, the positions recorded in \<^verbatim>\<open>reserva_usado\<close> are exactly the
  positions of the credits made by the substitution statement, in order, and no position is
  recorded twice: the substitution statement credits at most one reserve per position. After
  such a credit, no later credit of either statement is for that position. And the credits of
  one starter iteration are exactly these (\<open>creditos_titular\<close>): none when the starter entered
  play, when the starter's position is already recorded, or when the club's match is not
  finished; otherwise the reserves are scanned in stored order and, for each reserve of the
  starter's position, the captain statement credits its live score when the starter is the
  captain, and then the substitution statement credits it, and ends the scan, when its live
  score is at least 0.1. So for a captain every reserve of the position that the scan passes
  is credited by the captain statement, and the substituting one is credited twice.
\<close>

theorem atletas_loop_uma_substituicao:
  "reserva_usado (snd (snd (atletas_loop parciais partidas as (laco_inicial t)))) =
     map cr_posicao
       (substituicoes (creditos (snd (snd (atletas_loop parciais partidas as (laco_inicial t))))))
   \<and> distinct (reserva_usado (snd (snd (atletas_loop parciais partidas as (laco_inicial t)))))
   \<and> posicao_fechada (creditos (snd (snd (atletas_loop parciais partidas as (laco_inicial t)))))
   \<and> creditos (snd (snd (atleta_step parciais partidas atleta st))) =
       creditos st @ creditos_titular parciais atleta (lista_reservas (time_reservas st))
                       (matchFinished (clube atleta) partidas) (set (reserva_usado st))"
proof -
  have "reserva_usado (laco_inicial t) = map cr_posicao (substituicoes (creditos (laco_inicial t)))"
       "posicao_fechada (creditos (laco_inicial t))"
    by (simp_all add: substituicoes_def)
  from atletas_loop_inv [OF this, of parciais partidas as] show ?thesis
    using posicao_fechada_distinct atleta_step_log by auto
qed

theorem atletas_loop_uma_substituicao_witness:
  "map cr_posicao (substituicoes ex_creditos) = [''Atacante'', ''Goleiro'']
   \<and> posicao_fechada ex_creditos
   \<and> creditos (snd (snd (atleta_step ex_parciais [ex_partida] ex_capitao (laco_inicial ex_time)))) =
       [\<lparr>cr_ramo = RamoCapitao, cr_posicao = ''Atacante'', cr_reserva = 10, cr_pontos = 0.05\<rparr>,
        \<lparr>cr_ramo = RamoCapitao, cr_posicao = ''Atacante'', cr_reserva = 11, cr_pontos = 4\<rparr>,
        \<lparr>cr_ramo = RamoSubstituicao, cr_posicao = ''Atacante'', cr_reserva = 11, cr_pontos = 4\<rparr>]"
proof -
  have t: "creditos_titular ex_parciais ex_capitao (lista_reservas (time_reservas (laco_inicial ex_time)))
             (matchFinished (clube ex_capitao) [ex_partida]) (set (reserva_usado (laco_inicial ex_time))) =
       [\<lparr>cr_ramo = RamoCapitao, cr_posicao = ''Atacante'', cr_reserva = 10, cr_pontos = 0.05\<rparr>,
        \<lparr>cr_ramo = RamoCapitao, cr_posicao = ''Atacante'', cr_reserva = 11, cr_pontos = 4\<rparr>,
        \<lparr>cr_ramo = RamoSubstituicao, cr_posicao = ''Atacante'', cr_reserva = 11, cr_pontos = 4\<rparr>]"
    by (simp add: creditos_titular_def ex_defs laco_inicial_def lista_reservas_def matchFinished_def
          jogo_finalizou_def encerrada_def entered_play_def live_score_def get_def truthy_def)
  from atletas_loop_uma_substituicao [of ex_parciais "[ex_partida]" "atletas ex_time" ex_time
         ex_capitao "laco_inicial ex_time"]
  show ?thesis
    unfolding ex_laco t by (auto simp: laco_inicial_def)
qed

section \<open>A second pass\<close>

lemma credita_time_reservas_update:
  "credita b a r (st\<lparr>time_reservas := x\<rparr>) = (credita b a r st)\<lparr>time_reservas := x\<rparr>"
  by (simp add: credita_def)

lemma reservas_loop_time_reservas_update:
  "fst (reservas_loop p a jf rs (st\<lparr>time_reservas := x\<rparr>)) = fst (reservas_loop p a jf rs st)
   \<and> snd (reservas_loop p a jf rs (st\<lparr>time_reservas := x\<rparr>))
       = (snd (reservas_loop p a jf rs st))\<lparr>time_reservas := x\<rparr>"
proof (induction rs arbitrary: st)
  case Nil
  show ?case by simp
next
  case (Cons r rs)
  show ?case
    using Cons.IH [of st] Cons.IH [of "credita RamoCapitao a (refresca p r) st"]
    by (auto simp: reservas_loop_Cons credita_time_reservas_update)
qed

lemma titular_apos_fields [simp]:
  "atleta_id (titular_apos p a) = atleta_id a"
  "clube (titular_apos p a) = clube a"
  "posicao (titular_apos p a) = posicao a"
  "is_capitao (titular_apos p a) = is_capitao a"
  by (simp_all add: titular_apos_def)

lemma atualiza_atleta_titular_apos [simp]:
  "atualiza_atleta (titular_apos p a) e = atualiza_atleta a e"
  by (simp add: titular_apos_def atualiza_atleta_def split: option.splits)

lemma own_score_titular_apos [simp]: "own_score p (titular_apos p a) = own_score p a"
  by (simp add: own_score_def live_score_def)

lemma tem_entrada_titular_apos [simp]: "tem_entrada p (titular_apos p a) = tem_entrada p a"
  by (simp add: tem_entrada_def)

lemma atleta_step_titular_apos [simp]:
  "atleta_step p ps (titular_apos p a) st = atleta_step p ps a st"
  by (cases "jogo_finalizou (clube a) ps"; cases "time_reservas st")
     (simp_all add: atleta_step_eq)

lemma titular_apos_idem [simp]: "titular_apos p (titular_apos p a) = titular_apos p a"
proof -
  have "titular_apos p (titular_apos p a) =
          (atualiza_atleta (titular_apos p a)
             (isinstance_Atleta (get p (atleta_id (titular_apos p a)))))
            \<lparr>Atleta.pontos := own_score p (titular_apos p a)\<rparr>"
    by (rule titular_apos_def)
  also have "\<dots> = (atualiza_atleta a (isinstance_Atleta (get p (atleta_id a))))
                      \<lparr>Atleta.pontos := own_score p a\<rparr>"
    by simp
  also have "\<dots> = titular_apos p a"
    by (simp add: titular_apos_def)
  finally show ?thesis .
qed

lemma atletas_loop_titular_apos:
  "fst (atletas_loop p ps as st) = None \<Longrightarrow>
   atletas_loop p ps (map (titular_apos p) as) st =
     (None, map (titular_apos p) as, snd (snd (atletas_loop p ps as st)))"
proof (induction as arbitrary: st)
  case Nil
  show ?case by simp
next
  case (Cons a as)
  from atletas_loop_fst_Cons [OF Cons.prems] obtain jf where
    jf: "jogo_finalizou (clube a) ps = Inr jf"
    and r: "fst (atletas_loop p ps as (snd (snd (atleta_step p ps a st)))) = None" by blast
  have jf': "jogo_finalizou (clube (titular_apos p a)) ps = Inr jf"
    using jf by simp
  show ?case
    using Cons.IH [OF r]
    by (simp add: atletas_loop_Cons_ok [OF jf] atletas_loop_Cons_ok [OF jf'])
qed

lemma atletas_loop_fst_state:
  "fst (atletas_loop p ps as st) = fst (atletas_loop p ps as st')"
proof (induction as arbitrary: st st')
  case Nil
  show ?case by simp
next
  case (Cons a as)
  show ?case
  proof (cases "jogo_finalizou (clube a) ps")
    case (Inl e)
    then show ?thesis by (simp add: atletas_loop_Cons_err)
  next
    case (Inr jf)
    show ?thesis
      using Cons.IH [of "snd (snd (atleta_step p ps a st))" "snd (snd (atleta_step p ps a st'))"]
      by (simp add: atletas_loop_Cons_ok [OF Inr])
  qed
qed

lemma atleta_step_again:
  assumes "jogo_finalizou (clube a) ps = Inr jf"
  shows "\<exists>m. time_reservas (snd (snd (atleta_step p ps a (st\<lparr>time_reservas := Some rs\<rparr>))))
              = Some (refrescados p m rs)
       \<and> (\<forall>j. snd (snd (atleta_step p ps a (st\<lparr>time_reservas := Some (refrescados p j rs)\<rparr>)))
               = (snd (snd (atleta_step p ps a (st\<lparr>time_reservas := Some rs\<rparr>))))
                   \<lparr>time_reservas := Some (refrescados p (max j m) rs)\<rparr>)"
proof -
  let ?a1 = "atualiza_atleta a (isinstance_Atleta (get p (atleta_id a)))"
  let ?st1 = "st\<lparr>time_jogados := time_jogados st + (if tem_entrada p a then 1 else 0)\<rparr>"
  obtain m where m: "fst (reservas_loop p ?a1 jf rs ?st1) = refrescados p m rs"
    "\<And>j. fst (reservas_loop p ?a1 jf (refrescados p j rs) ?st1) = refrescados p (max j m) rs"
    "\<And>j. snd (reservas_loop p ?a1 jf (refrescados p j rs) ?st1) = snd (reservas_loop p ?a1 jf rs ?st1)"
    using reservas_loop_again [of p ?a1 jf rs ?st1] by blast
  have upd: "(st\<lparr>time_reservas := x\<rparr>)\<lparr>time_jogados := y\<rparr> = (st\<lparr>time_jogados := y\<rparr>)\<lparr>time_reservas := x\<rparr>" for x y
    by simp
  have "time_reservas (snd (snd (atleta_step p ps a (st\<lparr>time_reservas := Some rs\<rparr>))))
              = Some (refrescados p m rs)"
    using assms m(1)
    by (simp add: atleta_step_eq upd reservas_loop_time_reservas_update del: laco.update_convs)
  moreover have "snd (snd (atleta_step p ps a (st\<lparr>time_reservas := Some (refrescados p j rs)\<rparr>)))
               = (snd (snd (atleta_step p ps a (st\<lparr>time_reservas := Some rs\<rparr>))))
                   \<lparr>time_reservas := Some (refrescados p (max j m) rs)\<rparr>" for j
    using assms m(2) [of j] m(3) [of j]
    by (simp add: atleta_step_eq upd reservas_loop_time_reservas_update)
  ultimately show ?thesis by blast
qed


lemma atletas_loop_again:
  "fst (atletas_loop p ps as (st\<lparr>time_reservas := Some rs\<rparr>)) = None \<Longrightarrow>
   \<exists>m. time_reservas (snd (snd (atletas_loop p ps as (st\<lparr>time_reservas := Some rs\<rparr>))))
          = Some (refrescados p m rs)
     \<and> (\<forall>j. snd (snd (atletas_loop p ps as (st\<lparr>time_reservas := Some (refrescados p j rs)\<rparr>)))
            = (snd (snd (atletas_loop p ps as (st\<lparr>time_reservas := Some rs\<rparr>))))
                \<lparr>time_reservas := Some (refrescados p (max j m) rs)\<rparr>)"
proof (induction as arbitrary: st rs)
  case Nil
  have "time_reservas (snd (snd (atletas_loop p ps [] (st\<lparr>time_reservas := Some rs\<rparr>))))
          = Some (refrescados p 0 rs)
     \<and> (\<forall>j. snd (snd (atletas_loop p ps [] (st\<lparr>time_reservas := Some (refrescados p j rs)\<rparr>)))
            = (snd (snd (atletas_loop p ps [] (st\<lparr>time_reservas := Some rs\<rparr>))))
                \<lparr>time_reservas := Some (refrescados p (max j 0) rs)\<rparr>)"
    by simp
  then show ?case ..
next
  case (Cons a as)
  let ?s = "\<lambda>x. st\<lparr>time_reservas := Some x\<rparr>"
  let ?st1 = "snd (snd (atleta_step p ps a (?s rs)))"
  from atletas_loop_fst_Cons [OF Cons.prems] obtain jf where
    jf: "jogo_finalizou (clube a) ps = Inr jf"
    and r: "fst (atletas_loop p ps as ?st1) = None" by blast
  obtain m1 where m1: "time_reservas ?st1 = Some (refrescados p m1 rs)"
    "\<And>j. snd (snd (atleta_step p ps a (?s (refrescados p j rs))))
          = ?st1\<lparr>time_reservas := Some (refrescados p (max j m1) rs)\<rparr>"
    using atleta_step_again [OF jf, where p = p and st = st and rs = rs] by blast
  have st1: "?st1\<lparr>time_reservas := Some (refrescados p m1 rs)\<rparr> = ?st1"
    using m1(1) by (metis laco.surjective laco.update_convs(3))
  from r have r': "fst (atletas_loop p ps as (?st1\<lparr>time_reservas := Some (refrescados p m1 rs)\<rparr>)) = None"
    by (simp only: st1)
  obtain m2 where m2:
    "time_reservas (snd (snd (atletas_loop p ps as (?st1\<lparr>time_reservas := Some (refrescados p m1 rs)\<rparr>))))
          = Some (refrescados p m2 (refrescados p m1 rs))"
    "\<And>j. snd (snd (atletas_loop p ps as
              (?st1\<lparr>time_reservas := Some (refrescados p j (refrescados p m1 rs))\<rparr>)))
            = (snd (snd (atletas_loop p ps as (?st1\<lparr>time_reservas := Some (refrescados p m1 rs)\<rparr>))))
                \<lparr>time_reservas := Some (refrescados p (max j m2) (refrescados p m1 rs))\<rparr>"
    using Cons.IH [OF r'] by blast
  let ?fin = "snd (snd (atletas_loop p ps as ?st1))"
  have fin: "snd (snd (atletas_loop p ps (a # as) (?s rs))) = ?fin"
    by (simp add: atletas_loop_Cons_ok [OF jf])
  have a: "time_reservas ?fin = Some (refrescados p (max m2 m1) rs)"
    using m2(1) by (simp only: st1 refrescados_refrescados)
  have b: "snd (snd (atletas_loop p ps (a # as) (?s (refrescados p j rs))))
            = ?fin\<lparr>time_reservas := Some (refrescados p (max j (max m2 m1)) rs)\<rparr>" for j
  proof -
    have "snd (snd (atletas_loop p ps (a # as) (?s (refrescados p j rs))))
          = snd (snd (atletas_loop p ps as (?st1\<lparr>time_reservas := Some (refrescados p (max j m1) rs)\<rparr>)))"
      by (simp add: atletas_loop_Cons_ok [OF jf] m1(2))
    also have "refrescados p (max j m1) rs = refrescados p (max j m1) (refrescados p m1 rs)"
      by (simp add: refrescados_refrescados)
    also have "snd (snd (atletas_loop p ps as
                 (?st1\<lparr>time_reservas := Some (refrescados p (max j m1) (refrescados p m1 rs))\<rparr>)))
          = ?fin\<lparr>time_reservas := Some (refrescados p (max (max j m1) m2) (refrescados p m1 rs))\<rparr>"
      using m2(2) [of "max j m1"] by (simp only: st1)
    also have "refrescados p (max (max j m1) m2) (refrescados p m1 rs)
               = refrescados p (max j (max m2 m1)) rs"
      by (simp add: refrescados_refrescados max.assoc max.commute max.left_commute)
    finally show ?thesis .
  qed
  from a b fin show ?case by (simp only:) blast
qed

lemma calculate_parcial_Returns_iff:
  "calculate_parcial (ArgTime t) parciais partidas = Returns x \<Longrightarrow>
   \<not> parciais_invalidos parciais
   \<and> fst (atletas_loop parciais partidas (atletas t) (laco_inicial t)) = None"
  by (cases "atletas_loop parciais partidas (atletas t) (laco_inicial t)")
     (auto simp: calculate_parcial_def split: if_splits option.splits)

text \<open>
  C8. When a call returns a team, a second call on that team, with the same feed and match
  list, returns it unchanged: the same \<^verbatim>\<open>pontos\<close> and \<^verbatim>\<open>jogados\<close>, and also the same starters
  and reserves. And the team returned does not depend on the values that \<^verbatim>\<open>pontos\<close> and
  \<^verbatim>\<open>jogados\<close> have when the call starts: both are reset and recomputed.
\<close>

theorem calculate_parcial_idempotent:
  assumes "calculate_parcial (ArgTime t) parciais partidas = Returns (ArgTime t1)"
  shows "calculate_parcial (ArgTime t1) parciais partidas = Returns (ArgTime t1)
       \<and> calculate_parcial (ArgTime (t\<lparr>Time.pontos := x, jogados := y\<rparr>)) parciais partidas
           = Returns (ArgTime t1)"
proof -
  let ?R = "atletas_loop parciais partidas (atletas t) (laco_inicial t)"
  let ?fin = "snd (snd ?R)"
  from calculate_parcial_Returns_iff [OF assms]
  have v: "\<not> parciais_invalidos parciais" and ok: "fst ?R = None" by simp_all
  have t1: "t1 = grava t (map (titular_apos parciais) (atletas t)) ?fin"
    using assms calculate_parcial_Returns [OF v ok] by simp
  have reset: "calculate_parcial (ArgTime (t\<lparr>Time.pontos := x, jogados := y\<rparr>)) parciais partidas
           = Returns (ArgTime t1)"
  proof -
    have l: "laco_inicial (t\<lparr>Time.pontos := x, jogados := y\<rparr>) = laco_inicial t"
      by (simp add: laco_inicial_def)
    have ok': "fst (atletas_loop parciais partidas (atletas (t\<lparr>Time.pontos := x, jogados := y\<rparr>))
                 (laco_inicial (t\<lparr>Time.pontos := x, jogados := y\<rparr>))) = None"
      using ok by (simp add: l)
    show ?thesis
      using calculate_parcial_Returns [OF v ok'] by (simp add: l t1 grava_def)
  qed
  have again: "atletas_loop parciais partidas (atletas t1) (laco_inicial t1)
               = (None, atletas t1, ?fin)"
  proof (cases "reservas t")
    case None
    then have tr: "time_reservas ?fin = None"
      using atletas_loop_reservas [OF ok] by auto
    have l: "laco_inicial t1 = laco_inicial t"
      using None tr by (simp add: laco_inicial_def t1 grava_def)
    show ?thesis
      using atletas_loop_titular_apos [OF ok] by (simp add: l) (simp add: t1 grava_def)
  next
    case (Some rs)
    have l0: "laco_inicial t = (laco_inicial t)\<lparr>time_reservas := Some rs\<rparr>"
      using Some by (simp add: laco_inicial_def)
    from ok have ok0: "fst (atletas_loop parciais partidas (atletas t)
                         ((laco_inicial t)\<lparr>time_reservas := Some rs\<rparr>)) = None"
      using l0 by simp
    obtain m where m: "time_reservas ?fin = Some (refrescados parciais m rs)"
      "\<And>j. snd (snd (atletas_loop parciais partidas (atletas t)
                 ((laco_inicial t)\<lparr>time_reservas := Some (refrescados parciais j rs)\<rparr>)))
            = ?fin\<lparr>time_reservas := Some (refrescados parciais (max j m) rs)\<rparr>"
      using atletas_loop_again [OF ok0] l0 by metis
    have l: "laco_inicial t1 = (laco_inicial t)\<lparr>time_reservas := Some (refrescados parciais m rs)\<rparr>"
      using m(1) by (simp add: laco_inicial_def t1 grava_def)
    have fin: "?fin\<lparr>time_reservas := Some (refrescados parciais m rs)\<rparr> = ?fin"
      using m(1) by (metis laco.surjective laco.update_convs(3))
    have ok1: "fst (atletas_loop parciais partidas (atletas t) (laco_inicial t1)) = None"
      using ok atletas_loop_fst_state [of parciais partidas "atletas t" "laco_inicial t1" "laco_inicial t"]
      by simp
    have s1: "snd (snd (atletas_loop parciais partidas (atletas t) (laco_inicial t1))) = ?fin"
      using m(2) [of m] fin by (simp add: l)
    show ?thesis
      using atletas_loop_titular_apos [OF ok1] s1 by (simp add: t1 grava_def)
  qed
  have ok2: "fst (atletas_loop parciais partidas (atletas t1) (laco_inicial t1)) = None"
    using again by simp
  have "calculate_parcial (ArgTime t1) parciais partidas
        = Returns (ArgTime (grava t1 (map (titular_apos parciais) (atletas t1)) ?fin))"
    using calculate_parcial_Returns [OF v ok2] again by simp
  also have "grava t1 (map (titular_apos parciais) (atletas t1)) ?fin = t1"
    by (simp add: t1 grava_def)
  finally show ?thesis using reset by simp
qed

theorem calculate_parcial_idempotent_witness:
  "calculate_parcial (ArgTime ex_resultado) ex_parciais [ex_partida] = Returns (ArgTime ex_resultado)
   \<and> calculate_parcial (ArgTime (ex_time\<lparr>Time.pontos := 1000, jogados := Some 7\<rparr>)) ex_parciais [ex_partida]
       = Returns (ArgTime ex_resultado)
   \<and> Time.pontos ex_resultado = 28.05 \<and> jogados ex_resultado = Some 2"
  using calculate_parcial_idempotent [OF ex_calculate, where x = 1000 and y = "Some 7"]
  by (simp add: ex_resultado_def)

end
